theory Spec2Isabelle
  imports Complex_Main
begin

section \<open>Scope\<close>

text \<open>
  The repository holds three versions of the same Express server. They are modelled side
  by side and told apart by a suffix:
  \<^item> \<open>_A\<close>: the first document of \<^verbatim>\<open>src/server.js\<close> (lines 1 to 337),
  \<^item> \<open>_B\<close>: the second document of \<^verbatim>\<open>src/server.js\<close> (lines 338 to 671),
  \<^item> \<open>_C\<close>: \<^verbatim>\<open>src/unnamed/part_001\<close>.

  Versions B and C share \<^verbatim>\<open>generateSpeech\<close>, \<^verbatim>\<open>presetPrompts\<close> and the
  \<^verbatim>\<open>/init\<close> handler word for word; they differ in \<^verbatim>\<open>/chat\<close> only.

  A handler is a function from the request body and the session store to an outcome: the
  HTTP response, the store afterwards, and the requests it sent to the two remote
  services. The completion API and the speech API are parameters of the handlers
  (functions from a request to its result), so every theorem holds for whatever the
  remote services answer. One handler runs from start to finish without another one in
  between: interleaving of concurrent requests is not modelled.
\<close>

section \<open>JavaScript primitives\<close>

text \<open>
  Text is a \<^typ>\<open>string\<close>. JavaScript strings are sequences of UTF-16 code units and
  HOL characters are bytes; the handlers only look for the ASCII characters \<open>*\<close> and
  space and for ASCII names, and never measure a string's length.
\<close>

text \<open>\<^verbatim>\<open>s.replace(/\*\*/g, '')\<close>: every match of two stars, found from left to right
  without overlap, is removed.\<close>

fun replace_double_star :: "string \<Rightarrow> string" where
  "replace_double_star (a # b # cs) =
     (if a = CHR ''*'' \<and> b = CHR ''*'' then replace_double_star cs
      else a # replace_double_star (b # cs))"
| "replace_double_star cs = cs"

text \<open>\<^verbatim>\<open>s.replace(/\*/g, '')\<close>.\<close>

definition replace_star :: "string \<Rightarrow> string" where
  "replace_star s = filter (\<lambda>c. c \<noteq> CHR ''*'') s"

text \<open>\<^verbatim>\<open>botResponse.replace(/\*\*/g, '').replace(/\*/g, '')\<close>.\<close>

definition clean_markdown :: "string \<Rightarrow> string" where
  "clean_markdown s = replace_star (replace_double_star s)"

fun starts_with :: "string \<Rightarrow> string \<Rightarrow> bool" where
  "starts_with [] hay = True"
| "starts_with (n # ns) [] = False"
| "starts_with (n # ns) (h # hs) = (n = h \<and> starts_with ns hs)"

text \<open>\<^verbatim>\<open>hay.includes(needle)\<close>.\<close>

fun str_includes :: "string \<Rightarrow> string \<Rightarrow> bool" where
  "str_includes [] needle = (needle = [])"
| "str_includes (c # cs) needle = (starts_with needle (c # cs) \<or> str_includes cs needle)"

text \<open>String conversion of a value that may be \<^verbatim>\<open>undefined\<close>, as string concatenation,
  a template literal and the argument of \<^verbatim>\<open>includes\<close> perform it.\<close>

definition js_string :: "string option \<Rightarrow> string" where
  "js_string v = (case v of None \<Rightarrow> ''undefined'' | Some s \<Rightarrow> s)"

text \<open>Truthiness of an optional string: \<^verbatim>\<open>undefined\<close> and \<open>""\<close> are falsy.\<close>

definition truthy :: "string option \<Rightarrow> bool" where
  "truthy v = (case v of None \<Rightarrow> False | Some s \<Rightarrow> s \<noteq> [])"

text \<open>\<^verbatim>\<open>s.split(' ')\<close>: the empty string gives one empty word.\<close>

fun split_space :: "string \<Rightarrow> string list" where
  "split_space [] = [[]]"
| "split_space (c # cs) =
     (if c = CHR '' '' then [] # split_space cs
      else (case split_space cs of [] \<Rightarrow> [[c]] | w # ws \<Rightarrow> (c # w) # ws))"

text \<open>\<^verbatim>\<open>ws.join(' ')\<close>.\<close>

fun join_space :: "string list \<Rightarrow> string" where
  "join_space [] = []"
| "join_space [w] = w"
| "join_space (w # v # ws) = w @ '' '' @ join_space (v # ws)"

text \<open>\<^verbatim>\<open>xs.slice(-n)\<close> for a positive \<open>n\<close>: the last \<open>n\<close> elements, all of them when
  there are fewer.\<close>

definition slice_last :: "nat \<Rightarrow> 'a list \<Rightarrow> 'a list" where
  "slice_last n xs = drop (length xs - n) xs"

text \<open>\<^verbatim>\<open>await Promise.all(ps)\<close>: the results in order, or a rejection when one rejects.\<close>

fun promise_all :: "'a option list \<Rightarrow> 'a list option" where
  "promise_all [] = Some []"
| "promise_all (None # ps) = None"
| "promise_all (Some x # ps) = (case promise_all ps of None \<Rightarrow> None | Some xs \<Rightarrow> Some (x # xs))"

subsection \<open>Property access on an object literal\<close>

text \<open>
  \<^verbatim>\<open>presetPrompts\<close> and \<^verbatim>\<open>roleToVoice\<close> are plain object literals, and
  \<^verbatim>\<open>obj[key]\<close> also finds what the literal inherits from \<^verbatim>\<open>Object.prototype\<close>:
  eleven functions and the accessor \<^verbatim>\<open>__proto__\<close>, which answers
  \<^verbatim>\<open>Object.prototype\<close> itself. All of them are truthy.
\<close>

definition object_prototype_functions :: "string list" where
  "object_prototype_functions =
     [''constructor'', ''__defineGetter__'', ''__defineSetter__'', ''hasOwnProperty'',
      ''__lookupGetter__'', ''__lookupSetter__'', ''isPrototypeOf'',
      ''propertyIsEnumerable'', ''toString'', ''valueOf'', ''toLocaleString'']"

text \<open>The \<^verbatim>\<open>name\<close> of an inherited function: \<^verbatim>\<open>({}).constructor\<close> is the function
  \<^verbatim>\<open>Object\<close>; every other one is named after its key.\<close>

definition inherited_function_name :: "string \<Rightarrow> string" where
  "inherited_function_name k = (if k = ''constructor'' then ''Object'' else k)"

datatype 'a property = Own 'a | InheritedFunction string | InheritedProto

definition get_property :: "(string \<rightharpoonup> 'a) \<Rightarrow> string \<Rightarrow> 'a property option" where
  "get_property obj k =
     (case obj k of
        Some v \<Rightarrow> Some (Own v)
      | None \<Rightarrow>
          if k \<in> set object_prototype_functions then Some (InheritedFunction (inherited_function_name k))
          else if k = ''__proto__'' then Some InheritedProto
          else None)"

section \<open>Data model\<close>

datatype role_tag = System | User | Assistant

text \<open>One entry of a history or of a completion request:
  \<^verbatim>\<open>{ role: ..., content: ... }\<close>. The content is \<open>None\<close> where the code stores
  \<^verbatim>\<open>undefined\<close>.\<close>

record turn =
  role :: role_tag
  content :: "string option"

text \<open>\<^verbatim>\<open>const chatHistory = new Map()\<close>, keyed by the \<^verbatim>\<open>sessionId\<close> of the request
  body, which is \<^verbatim>\<open>undefined\<close> (\<open>None\<close>) when the body has none.\<close>

type_synonym store = "string option \<rightharpoonup> turn list"

text \<open>\<^verbatim>\<open>chatHistory.get(sessionId) || []\<close>: an array is truthy even when empty.\<close>

definition history_of :: "store \<Rightarrow> string option \<Rightarrow> turn list" where
  "history_of st sid = (case st sid of None \<Rightarrow> [] | Some h \<Rightarrow> h)"

record persona =
  name :: string
  system :: string

definition lawyer_A :: persona where
  "lawyer_A = \<lparr>name = ''Saul Goodman'',
     system = ''You are Saul Goodman. Keep responses under 50 words. Be direct and witty. Use 'Better Call Saul' catchphrase occasionally. Focus on practical legal advice while maintaining your signature charm.''\<rparr>"

definition doctor_A :: persona where
  "doctor_A = \<lparr>name = ''Dr. Sarah Chen'',
     system = ''You are Dr. Sarah Chen. Keep responses under 50 words. Provide clear, concise medical information. Be professional yet compassionate. Focus on practical health guidance.''\<rparr>"

definition tutor_A :: persona where
  "tutor_A = \<lparr>name = ''Professor Alex Thompson'',
     system = ''You are Professor Alex Thompson. Keep responses under 50 words. Explain concepts clearly and simply. Use examples when needed. Focus on key learning points.''\<rparr>"

definition engineer_A :: persona where
  "engineer_A = \<lparr>name = ''Dr. Michael Zhang'',
     system = ''You are Dr. Michael Zhang. Keep responses under 50 words. Provide practical coding and technical advice. Use simple explanations for complex concepts.''\<rparr>"

definition financial_A :: persona where
  "financial_A = \<lparr>name = ''Emma Richardson'',
     system = ''You are Emma Richardson. Keep responses under 50 words. Give clear financial advice. Focus on practical money management tips. Emphasize important financial concepts briefly.''\<rparr>"

definition writer_A :: persona where
  "writer_A = \<lparr>name = ''Isabella Martinez'',
     system = ''You are Isabella Martinez. Keep responses under 50 words. Provide concise writing advice. Focus on key storytelling elements. Give practical tips for improvement.''\<rparr>"

definition tax_A :: persona where
  "tax_A = \<lparr>name = ''William Turner'',
     system = ''You are William Turner. Keep responses under 50 words. Provide clear tax advice. Focus on compliance and optimization. Explain complex tax concepts simply.''\<rparr>"

definition lawyer_B :: persona where
  "lawyer_B = \<lparr>name = ''Saul Goodman'',
     system = ''You are Saul Goodman, working for SOOD. You're a charismatic and resourceful lawyer known for your creative legal solutions and catchy slogan 'Better Call Saul'. You have a colorful personality and aren't afraid to think outside the box. Never mention being an 'AI assistant' - just be Saul. Use your signature wit and charm while staying professional enough to handle serious legal matters. Always introduce yourself as Saul Goodman and occasionally use your catchphrase.''\<rparr>"

definition doctor_B :: persona where
  "doctor_B = \<lparr>name = ''Dr. Sarah Chen'',
     system = ''You are Dr. Sarah Chen, working for SOOD. You are a board-certified physician with expertise in internal medicine and preventive healthcare. Never mention being an 'AI assistant' - just be Dr. Chen. Provide clear, accurate medical information while maintaining a compassionate and professional tone.''\<rparr>"

definition tutor_B :: persona where
  "tutor_B = \<lparr>name = ''Professor Alex Thompson'',
     system = ''You are Professor Alex Thompson, working for SOOD. You are an experienced educator with expertise in multiple subjects including mathematics, sciences, and literature. Never mention being an 'AI assistant' - just be Professor Thompson. Explain concepts clearly and encourage active learning through questions and examples.''\<rparr>"

definition engineer_B :: persona where
  "engineer_B = \<lparr>name = ''Dr. Michael Zhang'',
     system = ''You are Dr. Michael Zhang, working for SOOD. You are a senior software engineer with 15 years of experience in multiple programming languages and software architectures. Never mention being an 'AI assistant' - just be Dr. Zhang. Provide clear, practical coding advice and explain technical concepts in accessible terms.''\<rparr>"

definition financial_B :: persona where
  "financial_B = \<lparr>name = ''Emma Richardson'',
     system = ''You are Emma Richardson, working for SOOD. You are a certified financial advisor with expertise in personal finance, investments, and wealth management. Never mention being an 'AI assistant' - just be Emma Richardson. Provide clear financial guidance while emphasizing the importance of personal research.''\<rparr>"

definition writer_B :: persona where
  "writer_B = \<lparr>name = ''Isabella Martinez'',
     system = ''You are Isabella Martinez, working for SOOD. You are an accomplished author and creative writing expert with experience across various genres. Never mention being an 'AI assistant' - just be Isabella Martinez. Provide guidance on storytelling, character development, and writing techniques with an encouraging approach.''\<rparr>"

definition tax_B :: persona where
  "tax_B = \<lparr>name = ''William Turner'',
     system = ''You are William Turner, working for SOOD. You are a certified tax specialist with over 15 years of experience in tax planning, compliance, and advisory services. Never mention being an 'AI assistant' - just be William Turner. You specialize in helping clients navigate complex tax regulations, optimize their tax positions, and ensure full compliance with tax laws. Always emphasize the importance of proper documentation and staying within legal boundaries.''\<rparr>"

definition saul_fallback :: persona where
  "saul_fallback = \<lparr>name = ''SAUL GOODMAN'',
     system = ''You are Saul Goodman, working for SOOD. You're a charismatic and resourceful lawyer known for your creative legal solutions and catchy slogan 'Better Call Saul'. You have a colorful personality and aren't afraid to think outside the box. Never mention being an 'AI assistant' - just be Saul. Use your signature wit and charm while staying professional enough to handle serious legal matters. Always introduce yourself as Saul Goodman and occasionally use your catchphrase.''\<rparr>"

text \<open>\<^verbatim>\<open>presetPrompts\<close> of version A.\<close>

definition presetPrompts_A :: "string \<rightharpoonup> persona" where
  "presetPrompts_A =
     map_of [(''lawyer'', lawyer_A), (''doctor'', doctor_A), (''tutor'', tutor_A),
             (''engineer'', engineer_A), (''financial'', financial_A),
             (''writer'', writer_A), (''tax'', tax_A)]"

text \<open>\<^verbatim>\<open>presetPrompts\<close> of versions B and C.\<close>

definition presetPrompts_B :: "string \<rightharpoonup> persona" where
  "presetPrompts_B =
     map_of [(''lawyer'', lawyer_B), (''doctor'', doctor_B), (''tutor'', tutor_B),
             (''engineer'', engineer_B), (''financial'', financial_B),
             (''writer'', writer_B), (''tax'', tax_B)]"

text \<open>\<^verbatim>\<open>roleToVoice\<close>, declared in version A only.\<close>

definition roleToVoice :: "string \<rightharpoonup> string" where
  "roleToVoice =
     map_of [(''lawyer'', ''ErXwobaYiN019PkySvjV''), (''doctor'', ''EXAVITQu4vr4xnSDxMaL''),
             (''tutor'', ''21m00Tcm4TlvDq8ikWAM''), (''engineer'', ''VR6AewLTigWG4xSOukaG''),
             (''financial'', ''EXAVITQu4vr4xnSDxMaL''), (''writer'', ''21m00Tcm4TlvDq8ikWAM''),
             (''tax'', ''ErXwobaYiN019PkySvjV'')]"

text \<open>\<^verbatim>\<open>roleConfig.name\<close> and \<^verbatim>\<open>roleConfig.system\<close>: an inherited function has a
  name and no \<^verbatim>\<open>system\<close>; \<^verbatim>\<open>Object.prototype\<close> has neither.\<close>

definition config_name :: "persona property \<Rightarrow> string option" where
  "config_name c =
     (case c of Own p \<Rightarrow> Some (name p) | InheritedFunction n \<Rightarrow> Some n | InheritedProto \<Rightarrow> None)"

definition config_system :: "persona property \<Rightarrow> string option" where
  "config_system c =
     (case c of Own p \<Rightarrow> Some (system p) | InheritedFunction n \<Rightarrow> None | InheritedProto \<Rightarrow> None)"

text \<open>A voice identifier as it is concatenated into the request URL.\<close>

definition voice_string :: "string property \<Rightarrow> string" where
  "voice_string v =
     (case v of
        Own s \<Rightarrow> s
      | InheritedFunction n \<Rightarrow> ''function '' @ n @ ''() { [native code] }''
      | InheritedProto \<Rightarrow> ''[object Object]'')"

section \<open>The remote services\<close>

text \<open>\<^verbatim>\<open>groq.chat.completions.create({ messages, model, max_tokens, ... })\<close>.\<close>

record completion_request =
  messages :: "turn list"
  llm_model :: string
  max_tokens :: nat

text \<open>
  The promise is rejected with an error carrying a message, or resolved. Of a resolved
  completion the handlers read \<^verbatim>\<open>choices[0].message.content\<close> only: \<open>Resolved c\<close>
  stands for a completion where that content is \<open>c\<close>, with \<open>None\<close> when
  \<^verbatim>\<open>choices[0]\<close>, its \<^verbatim>\<open>message\<close> or the \<^verbatim>\<open>content\<close> is missing or \<^verbatim>\<open>null\<close>.
  The handlers that read the chain without \<^verbatim>\<open>?.\<close> throw on a missing link and
  answer as they do for a rejection; the others fall back to a fixed text. A resolved
  value with no \<^verbatim>\<open>choices\<close> array at all throws a TypeError in every handler, inside
  the \<^verbatim>\<open>try\<close> that also catches a rejection, so it behaves as \<open>Rejected\<close> with the
  message of that TypeError.
\<close>

datatype completion_result = Rejected string | Resolved "string option"

type_synonym groq = "completion_request \<Rightarrow> completion_result"

text \<open>The \<^verbatim>\<open>voiceSettings\<close> of a request body: absent, \<^verbatim>\<open>null\<close>, or an object with
  optional \<^verbatim>\<open>stability\<close> and \<^verbatim>\<open>similarity_boost\<close>.\<close>

datatype voice_settings = SettingsAbsent | SettingsNull | Settings "rat option" "rat option"

record speech_request =
  voice :: string
  speech_text :: string
  stability :: rat
  similarity_boost :: rat

text \<open>One \<^verbatim>\<open>fetch\<close> to the speech API: the audio bytes in base64, or \<open>None\<close> when the
  request fails or the response is not ok.\<close>

type_synonym elevenlabs = "speech_request \<Rightarrow> string option"

record env =
  NODE_ENV :: "string option"
  ELEVENLABS_VOICE_ID :: "string option"

text \<open>\<^verbatim>\<open>x || 0.5\<close> on an optional number: \<^verbatim>\<open>undefined\<close> and \<open>0\<close> are falsy.\<close>

definition or_half :: "rat option \<Rightarrow> rat" where
  "or_half v = (case v of None \<Rightarrow> 1 / 2 | Some x \<Rightarrow> if x = 0 then 1 / 2 else x)"

text \<open>The request body of \<^verbatim>\<open>generateSpeech\<close>; \<open>None\<close> when reading
  \<^verbatim>\<open>voiceSettings.stability\<close> throws because \<^verbatim>\<open>voiceSettings\<close> is \<^verbatim>\<open>null\<close> (the
  default \<^verbatim>\<open>{}\<close> of the parameter replaces \<^verbatim>\<open>undefined\<close> only).\<close>

definition speech_body :: "string \<Rightarrow> string \<Rightarrow> voice_settings \<Rightarrow> speech_request option" where
  "speech_body vid txt vs =
     (case vs of
        SettingsNull \<Rightarrow> None
      | SettingsAbsent \<Rightarrow>
          Some \<lparr>voice = vid, speech_text = txt, stability = 1 / 2, similarity_boost = 1 / 2\<rparr>
      | Settings s b \<Rightarrow>
          Some \<lparr>voice = vid, speech_text = txt, stability = or_half s,
                similarity_boost = or_half b\<rparr>)"

definition data_url :: "string \<Rightarrow> string" where
  "data_url base64 = ''data:audio/mpeg;base64,'' @ base64"

text \<open>\<^verbatim>\<open>generateSpeech\<close> of version A: every failure is caught inside and answered with
  \<^verbatim>\<open>null\<close>. The result comes with the requests that were sent.\<close>

definition generateSpeech_A ::
  "elevenlabs \<Rightarrow> string \<Rightarrow> voice_settings \<Rightarrow> string \<Rightarrow> string option \<times> speech_request list" where
  "generateSpeech_A api txt vs vid =
     (case speech_body vid txt vs of
        None \<Rightarrow> (None, [])
      | Some rq \<Rightarrow> (map_option data_url (api rq), [rq]))"

text \<open>\<^verbatim>\<open>generateSpeech\<close> of versions B and C: the audio buffer, or \<open>None\<close> when it throws
  (no voice identifier, \<^verbatim>\<open>null\<close> settings, a failed request).\<close>

definition generateSpeech_B ::
  "env \<Rightarrow> elevenlabs \<Rightarrow> string \<Rightarrow> voice_settings \<Rightarrow> string option \<Rightarrow>
     string option \<times> speech_request list" where
  "generateSpeech_B e api txt vs voiceId =
     (let selectedVoiceId = (if truthy voiceId then voiceId else ELEVENLABS_VOICE_ID e)
      in case selectedVoiceId of
           None \<Rightarrow> (None, [])
         | Some vid \<Rightarrow>
             if vid = [] then (None, [])
             else (case speech_body vid txt vs of
                     None \<Rightarrow> (None, [])
                   | Some rq \<Rightarrow> (api rq, [rq])))"

section \<open>Responses and outcomes\<close>

datatype response_body =
    ErrorBody string
  | RetryBody string nat
  | DetailBody string "string option"
  | InitBody_A string "string option"
  | InitBody_B string "string list"
  | ChatBody_A string "string option"
  | ChatBody_C string "string list"
  | StatusBody string

record response =
  status :: nat
  body :: response_body

record outcome =
  sent :: response
  store_after :: store
  completion_calls :: "completion_request list"
  speech_calls :: "speech_request list"

definition respond ::
  "nat \<Rightarrow> response_body \<Rightarrow> store \<Rightarrow> completion_request list \<Rightarrow> speech_request list \<Rightarrow> outcome" where
  "respond code b st cs ss =
     \<lparr>sent = \<lparr>status = code, body = b\<rparr>, store_after = st, completion_calls = cs,
      speech_calls = ss\<rparr>"

section \<open>Role resolution\<close>

text \<open>\<^verbatim>\<open>role && table[role]\<close>: \<open>None\<close> when the key is absent or empty or the table
  answers \<^verbatim>\<open>undefined\<close>; otherwise what the table answers.\<close>

definition lookup_role :: "(string \<rightharpoonup> 'a) \<Rightarrow> string option \<Rightarrow> 'a property option" where
  "lookup_role table key =
     (case key of None \<Rightarrow> None | Some k \<Rightarrow> if k = [] then None else get_property table k)"

section \<open>POST /init\<close>

definition seed_user :: string where
  "seed_user = ''Hello, could you introduce yourself?''"

definition init_request :: "persona property \<Rightarrow> completion_request" where
  "init_request roleConfig =
     \<lparr>messages = [\<lparr>role = System, content = config_system roleConfig\<rparr>,
                  \<lparr>role = User, content = Some seed_user\<rparr>],
      llm_model = ''llama-3.1-70b-versatile'', max_tokens = 1024\<rparr>"

definition seed_history :: "persona property \<Rightarrow> string \<Rightarrow> turn list" where
  "seed_history roleConfig botResponse =
     [\<lparr>role = System, content = config_system roleConfig\<rparr>,
      \<lparr>role = User, content = Some seed_user\<rparr>,
      \<lparr>role = Assistant, content = Some botResponse\<rparr>]"

text \<open>
  Version A. The completion call and everything after it sit in an inner \<^verbatim>\<open>try\<close>; a
  missing content makes \<^verbatim>\<open>botResponse.replace\<close> throw there. The history was set to
  \<^verbatim>\<open>[]\<close> before the call.
\<close>

definition init_A :: "groq \<Rightarrow> elevenlabs \<Rightarrow> string option \<Rightarrow> string option \<Rightarrow> store \<Rightarrow> outcome" where
  "init_A groq api role_key sessionId st =
     (case lookup_role presetPrompts_A role_key of
        None \<Rightarrow> respond 400 (ErrorBody ''Invalid role specified'') st [] []
      | Some roleConfig \<Rightarrow>
          (let cleared = st(sessionId \<mapsto> []);
               rq = init_request roleConfig
           in case groq rq of
                Rejected msg \<Rightarrow>
                  respond 500 (ErrorBody ''Error initializing AI role. Please try again.'')
                    cleared [rq] []
              | Resolved None \<Rightarrow>
                  respond 500 (ErrorBody ''Error initializing AI role. Please try again.'')
                    cleared [rq] []
              | Resolved (Some raw) \<Rightarrow>
                  (let botResponse = clean_markdown raw;
                       stored = cleared(sessionId \<mapsto> seed_history roleConfig botResponse);
                       audio = (case lookup_role roleToVoice role_key of
                                  None \<Rightarrow> (None, [])
                                | Some v \<Rightarrow>
                                    generateSpeech_A api botResponse (Settings None None)
                                      (voice_string v))
                   in respond 200 (InitBody_A botResponse (fst audio)) stored [rq] (snd audio))))"

text \<open>
  Versions B and C. One \<^verbatim>\<open>try\<close> around the whole handler. \<^verbatim>\<open>roleToVoice\<close> is not
  declared in these files, so evaluating the arguments of \<^verbatim>\<open>generateSpeech\<close> throws a
  ReferenceError, which the \<^verbatim>\<open>try\<close> around the speech step catches: no speech request
  is sent and \<^verbatim>\<open>audioChunks\<close> stays empty.
\<close>

definition init_B :: "groq \<Rightarrow> elevenlabs \<Rightarrow> string option \<Rightarrow> string option \<Rightarrow> store \<Rightarrow> outcome" where
  "init_B groq api role_key sessionId st =
     (case lookup_role presetPrompts_B role_key of
        None \<Rightarrow> respond 400 (ErrorBody ''Invalid role specified'') st [] []
      | Some roleConfig \<Rightarrow>
          (let cleared = st(sessionId \<mapsto> []);
               rq = init_request roleConfig
           in case groq rq of
                Rejected msg \<Rightarrow>
                  respond 500 (ErrorBody ''An error occurred while initializing the chat'')
                    cleared [rq] []
              | Resolved None \<Rightarrow>
                  respond 500 (ErrorBody ''An error occurred while initializing the chat'')
                    cleared [rq] []
              | Resolved (Some raw) \<Rightarrow>
                  (let botResponse = clean_markdown raw;
                       stored = cleared(sessionId \<mapsto> seed_history roleConfig botResponse)
                   in respond 200 (InitBody_B botResponse []) stored [rq] [])))"

section \<open>POST /chat\<close>

record chat_body =
  message :: "string option"
  sessionId :: "string option"
  voiceSettings :: voice_settings
  model :: "string option"
  voiceId :: "string option"
  selectedRole :: "string option"
  ttsEnabled :: bool

definition missing_message :: "store \<Rightarrow> outcome" where
  "missing_message st = respond 400 (ErrorBody ''Message is required'') st [] []"

text \<open>The inner \<^verbatim>\<open>catch\<close> of versions A and B, with the two texts of the version.\<close>

definition upstream_failure ::
  "string \<Rightarrow> string \<Rightarrow> env \<Rightarrow> string \<Rightarrow> store \<Rightarrow> completion_request list \<Rightarrow> outcome" where
  "upstream_failure limited generic e msg st cs =
     (if msg \<noteq> [] \<and> str_includes msg ''rate limit exceeded''
      then respond 429 (RetryBody limited 60) st cs []
      else respond 500
             (DetailBody generic (if NODE_ENV e = Some ''development'' then Some msg else None))
             st cs [])"

text \<open>\<^verbatim>\<open>content || fallback\<close>.\<close>

definition or_text :: "string option \<Rightarrow> string \<Rightarrow> string" where
  "or_text v fallback = (case v of None \<Rightarrow> fallback | Some s \<Rightarrow> if s = [] then fallback else s)"

subsection \<open>Version A\<close>

definition limited_A :: string where
  "limited_A = ''Rate limit reached. Please try again in a few minutes.''"

definition generic_A :: string where
  "generic_A = ''Service temporarily unavailable. Please try again.''"

text \<open>\<^verbatim>\<open>selectedRole && presetPrompts[selectedRole] ? presetPrompts[selectedRole]
  : presetPrompts['lawyer']\<close>.\<close>

definition roleConfig_A :: "string option \<Rightarrow> persona property option" where
  "roleConfig_A selected =
     (case lookup_role presetPrompts_A selected of
        Some c \<Rightarrow> Some c
      | None \<Rightarrow> get_property presetPrompts_A ''lawyer'')"

definition chat_request_A :: "persona property \<Rightarrow> turn list \<Rightarrow> string \<Rightarrow> completion_request" where
  "chat_request_A roleConfig history m =
     \<lparr>messages =
        \<lparr>role = System,
         content = Some (js_string (config_system roleConfig) @ '' Always be concise and direct.'')\<rparr>
        # slice_last 4 history @ [\<lparr>role = User, content = Some m\<rparr>],
      llm_model = ''mixtral-8x7b-32768'', max_tokens = 100\<rparr>"

definition chat_A :: "env \<Rightarrow> groq \<Rightarrow> elevenlabs \<Rightarrow> chat_body \<Rightarrow> store \<Rightarrow> outcome" where
  "chat_A e groq api b st =
     (case message b of
        None \<Rightarrow> missing_message st
      | Some m \<Rightarrow>
          if m = [] then missing_message st
          else
            (let history = history_of st (sessionId b)
             in case roleConfig_A (selectedRole b) of
                  None \<Rightarrow>
                    upstream_failure limited_A generic_A e
                      ''Cannot read properties of undefined (reading 'system')'' st []
                | Some roleConfig \<Rightarrow>
                    (let rq = chat_request_A roleConfig history m
                     in case groq rq of
                          Rejected msg \<Rightarrow> upstream_failure limited_A generic_A e msg st [rq]
                        | Resolved c \<Rightarrow>
                            (let reply = or_text c ''Sorry, I couldn't generate a response.'';
                                 pushed = history @ [\<lparr>role = User, content = Some m\<rparr>,
                                                     \<lparr>role = Assistant, content = Some reply\<rparr>];
                                 stored = st(sessionId b \<mapsto> slice_last 6 pushed);
                                 audio = (if ttsEnabled b \<and> truthy (voiceId b)
                                          then generateSpeech_A api reply (voiceSettings b)
                                                 (js_string (voiceId b))
                                          else (None, []))
                             in respond 200 (ChatBody_A reply (fst audio)) stored [rq]
                                  (snd audio)))))"

subsection \<open>Version B\<close>

definition limited_B :: string where
  "limited_B = ''I'm currently experiencing high demand. Please try again in a few minutes. This helps ensure everyone can access the service fairly.''"

definition generic_B :: string where
  "generic_B = ''I'm having trouble processing your request right now. Please try again in a moment.''"

text \<open>The role configuration of versions B and C: the fallback is an object literal of
  its own, not an entry of \<^verbatim>\<open>presetPrompts\<close>.\<close>

definition roleConfig_B :: "string option \<Rightarrow> persona property" where
  "roleConfig_B selected =
     (case lookup_role presetPrompts_B selected of
        Some c \<Rightarrow> c
      | None \<Rightarrow> Own saul_fallback)"

definition chat_request_B ::
  "string \<Rightarrow> persona property \<Rightarrow> turn list \<Rightarrow> string \<Rightarrow> string option \<Rightarrow> completion_request" where
  "chat_request_B default_model roleConfig history m requested =
     \<lparr>messages =
        \<lparr>role = System, content = config_system roleConfig\<rparr>
        # history @ [\<lparr>role = User, content = Some m\<rparr>],
      llm_model = or_text requested default_model, max_tokens = 1024\<rparr>"

definition chat_B :: "env \<Rightarrow> groq \<Rightarrow> elevenlabs \<Rightarrow> chat_body \<Rightarrow> store \<Rightarrow> outcome" where
  "chat_B e groq api b st =
     (case message b of
        None \<Rightarrow> missing_message st
      | Some m \<Rightarrow>
          if m = [] then missing_message st
          else
            (let history = history_of st (sessionId b);
                 roleConfig = roleConfig_B (selectedRole b);
                 rq = chat_request_B ''mixtral-8x7b-32768'' roleConfig history m (model b)
             in case groq rq of
                  Rejected msg \<Rightarrow> upstream_failure limited_B generic_B e msg st [rq]
                | Resolved c \<Rightarrow>
                    (let reply = or_text c
                           ''I apologize, but I couldn't generate a response at the moment.'';
                         pushed = history @ [\<lparr>role = User, content = Some m\<rparr>,
                                             \<lparr>role = Assistant, content = Some reply\<rparr>];
                         stored = st(sessionId b \<mapsto> pushed);
                         audio = (if ttsEnabled b
                                  then generateSpeech_B e api reply (voiceSettings b) (voiceId b)
                                  else (None, []))
                     in respond 200 (ChatBody_A reply (fst audio)) stored [rq] (snd audio))))"

subsection \<open>Version C\<close>

text \<open>The loop that cuts the words of the reply into chunks of 50.\<close>

fun chunk_words :: "string list \<Rightarrow> string list \<Rightarrow> string list \<Rightarrow> string list" where
  "chunk_words [] currentChunk chunks =
     (if length currentChunk > 0 then chunks @ [join_space currentChunk] else chunks)"
| "chunk_words (word # words) currentChunk chunks =
     (if length (currentChunk @ [word]) \<ge> 50
      then chunk_words words [] (chunks @ [join_space (currentChunk @ [word])])
      else chunk_words words (currentChunk @ [word]) chunks)"

text \<open>
  The speech step: \<^verbatim>\<open>chunks.map\<close> starts \<^verbatim>\<open>generateSpeech\<close> for every chunk, so every
  request is sent whatever the others answer; \<^verbatim>\<open>audioChunks\<close> is assigned only when
  \<^verbatim>\<open>Promise.all\<close> resolves, and stays \<^verbatim>\<open>[]\<close> otherwise.
\<close>

definition speak_chunks ::
  "env \<Rightarrow> elevenlabs \<Rightarrow> string \<Rightarrow> voice_settings \<Rightarrow> string option \<Rightarrow>
     string list \<times> speech_request list" where
  "speak_chunks e api botResponse vs vid =
     (let chunks = chunk_words (split_space botResponse) [] [];
          started = map (\<lambda>chunk. generateSpeech_B e api chunk vs vid) chunks
      in (case promise_all (map fst started) of
            None \<Rightarrow> []
          | Some buffers \<Rightarrow> map data_url buffers,
          concat (map snd started)))"

text \<open>The first-message rule.\<close>

definition introduce :: "bool \<Rightarrow> persona property \<Rightarrow> string \<Rightarrow> string" where
  "introduce isFirstMessage roleConfig botResponse =
     (if isFirstMessage \<and> \<not> str_includes botResponse (js_string (config_name roleConfig))
      then ''Hello! I'm '' @ js_string (config_name roleConfig) @ ''. '' @ botResponse
      else botResponse)"

definition chat_C :: "env \<Rightarrow> groq \<Rightarrow> elevenlabs \<Rightarrow> chat_body \<Rightarrow> store \<Rightarrow> outcome" where
  "chat_C e groq api b st =
     (case message b of
        None \<Rightarrow> missing_message st
      | Some m \<Rightarrow>
          if m = [] then missing_message st
          else
            (let history = history_of st (sessionId b);
                 isFirstMessage = (length history = 0);
                 roleConfig = roleConfig_B (selectedRole b);
                 rq = chat_request_B ''llama-3.1-70b-versatile'' roleConfig history m (model b)
             in case groq rq of
                  Rejected msg \<Rightarrow>
                    respond 500 (ErrorBody ''An error occurred while processing your request'')
                      st [rq] []
                | Resolved None \<Rightarrow>
                    respond 500 (ErrorBody ''An error occurred while processing your request'')
                      st [rq] []
                | Resolved (Some raw) \<Rightarrow>
                    (let botResponse = clean_markdown (introduce isFirstMessage roleConfig raw);
                         stored = st(sessionId b \<mapsto>
                                    slice_last 10
                                      (history @ [\<lparr>role = User, content = Some m\<rparr>,
                                                  \<lparr>role = Assistant, content = Some botResponse\<rparr>]));
                         audio = (if ttsEnabled b
                                  then speak_chunks e api botResponse (voiceSettings b) (voiceId b)
                                  else ([], []))
                     in respond 200 (ChatBody_C botResponse (fst audio)) stored [rq]
                          (snd audio))))"

section \<open>POST /voice-settings and POST /clear-history\<close>

text \<open>\<^verbatim>\<open>x < c\<close> and \<^verbatim>\<open>x > c\<close> on an optional number: a comparison with
  \<^verbatim>\<open>undefined\<close> is false.\<close>

definition js_less :: "rat option \<Rightarrow> rat \<Rightarrow> bool" where
  "js_less v c = (case v of None \<Rightarrow> False | Some x \<Rightarrow> x < c)"

definition js_greater :: "rat option \<Rightarrow> rat \<Rightarrow> bool" where
  "js_greater v c = (case v of None \<Rightarrow> False | Some x \<Rightarrow> x > c)"

definition voice_settings_handler :: "rat option \<Rightarrow> rat option \<Rightarrow> store \<Rightarrow> outcome" where
  "voice_settings_handler stab sim st =
     (if js_less stab 0 \<or> js_greater stab 1 \<or> js_less sim 0 \<or> js_greater sim 1
      then respond 400 (ErrorBody ''Values must be between 0 and 1'') st [] []
      else respond 200 (StatusBody ''Settings updated'') st [] [])"

definition clear_history :: "string option \<Rightarrow> store \<Rightarrow> outcome" where
  "clear_history sid st =
     respond 200 (StatusBody ''History cleared'')
       (if truthy sid then st(sid := None) else st) [] []"

section \<open>Sequences of chat calls\<close>

text \<open>One call: the request body together with the environment and the answers of the
  remote services at the time of the call.\<close>

record chat_call =
  call_env :: env
  call_groq :: groq
  call_api :: elevenlabs
  call_body :: chat_body

type_synonym chat_handler = "env \<Rightarrow> groq \<Rightarrow> elevenlabs \<Rightarrow> chat_body \<Rightarrow> store \<Rightarrow> outcome"

definition perform :: "chat_handler \<Rightarrow> chat_call \<Rightarrow> store \<Rightarrow> outcome" where
  "perform handler c st = handler (call_env c) (call_groq c) (call_api c) (call_body c) st"

fun run_chats :: "chat_handler \<Rightarrow> chat_call list \<Rightarrow> store \<Rightarrow> store" where
  "run_chats handler [] st = st"
| "run_chats handler (c # cs) st = run_chats handler cs (store_after (perform handler c st))"

text \<open>The reply text of a successful chat response.\<close>

definition reply_text :: "response_body \<Rightarrow> string option" where
  "reply_text b =
     (case b of ChatBody_A reply a \<Rightarrow> Some reply | ChatBody_C t a \<Rightarrow> Some t | _ \<Rightarrow> None)"

text \<open>The two turns a call adds to the conversation of session \<open>sid\<close>: the message sent
  and the reply returned, when the call is for that session and is answered with a reply.\<close>

definition exchanged :: "chat_call \<Rightarrow> outcome \<Rightarrow> string option \<Rightarrow> turn list" where
  "exchanged c out sid =
     (if sessionId (call_body c) = sid
      then (case reply_text (body (sent out)) of
              None \<Rightarrow> []
            | Some reply \<Rightarrow> [\<lparr>role = User, content = message (call_body c)\<rparr>,
                             \<lparr>role = Assistant, content = Some reply\<rparr>])
      else [])"

text \<open>The conversation of session \<open>sid\<close> over a sequence of calls, in chronological order.\<close>

fun transcript :: "chat_handler \<Rightarrow> chat_call list \<Rightarrow> store \<Rightarrow> string option \<Rightarrow> turn list" where
  "transcript handler [] st sid = []"
| "transcript handler (c # cs) st sid =
     exchanged c (perform handler c st) sid
     @ transcript handler cs (store_after (perform handler c st)) sid"

section \<open>Example inputs\<close>

text \<open>Concrete requests, environments and remote services, used where a theorem is
  instantiated or the code is run on one input.\<close>

definition text_body :: "string \<Rightarrow> string \<Rightarrow> chat_body" where
  "text_body m sid =
     \<lparr>message = Some m, sessionId = Some sid, voiceSettings = SettingsAbsent, model = None,
      voiceId = None, selectedRole = None, ttsEnabled = False\<rparr>"

definition spoken_body :: "string \<Rightarrow> string \<Rightarrow> string \<Rightarrow> chat_body" where
  "spoken_body m sid vid =
     \<lparr>message = Some m, sessionId = Some sid, voiceSettings = SettingsAbsent, model = None,
      voiceId = Some vid, selectedRole = None, ttsEnabled = True\<rparr>"

definition production :: env where
  "production = \<lparr>NODE_ENV = Some ''production'', ELEVENLABS_VOICE_ID = None\<rparr>"

definition development :: env where
  "development = \<lparr>NODE_ENV = Some ''development'', ELEVENLABS_VOICE_ID = None\<rparr>"

definition answering :: "string \<Rightarrow> groq" where
  "answering raw = (\<lambda>rq. Resolved (Some raw))"

definition failing :: "string \<Rightarrow> groq" where
  "failing msg = (\<lambda>rq. Rejected msg)"

definition speech_down :: elevenlabs where
  "speech_down = (\<lambda>rq. None)"

definition speech_up :: elevenlabs where
  "speech_up = (\<lambda>rq. Some ''QUJD'')"

text \<open>A call with message \<open>m\<close> on session \<open>sid\<close> that the completion API answers with
  \<open>raw\<close>, with speech off.\<close>

definition call_of :: "string \<Rightarrow> string \<Rightarrow> string \<Rightarrow> chat_call" where
  "call_of m sid raw =
     \<lparr>call_env = production, call_groq = answering raw, call_api = speech_down,
      call_body = text_body m sid\<rparr>"

text \<open>A reply of 120 words.\<close>

definition long_reply :: string where
  "long_reply = join_space (replicate 120 ''la'')"

text \<open>The body \<^verbatim>\<open>{ message, sessionId, selectedRole }\<close>.\<close>

definition role_body :: "string \<Rightarrow> string \<Rightarrow> string \<Rightarrow> chat_body" where
  "role_body m sid key =
     \<lparr>message = Some m, sessionId = Some sid, voiceSettings = SettingsAbsent, model = None,
      voiceId = None, selectedRole = Some key, ttsEnabled = False\<rparr>"

text \<open>Speech requested without a voice, and with \<^verbatim>\<open>voiceSettings: null\<close>.\<close>

definition voiceless_body :: "string \<Rightarrow> string \<Rightarrow> chat_body" where
  "voiceless_body m sid =
     \<lparr>message = Some m, sessionId = Some sid, voiceSettings = SettingsAbsent, model = None,
      voiceId = None, selectedRole = None, ttsEnabled = True\<rparr>"

definition null_settings_body :: "string \<Rightarrow> string \<Rightarrow> string \<Rightarrow> chat_body" where
  "null_settings_body m sid vid =
     \<lparr>message = Some m, sessionId = Some sid, voiceSettings = SettingsNull, model = None,
      voiceId = Some vid, selectedRole = None, ttsEnabled = True\<rparr>"

section \<open>Facts about the primitives\<close>

lemma filter_replace_double_star:
  "filter (\<lambda>c. c \<noteq> CHR ''*'') (replace_double_star s) = filter (\<lambda>c. c \<noteq> CHR ''*'') s"
  by (induction s rule: replace_double_star.induct) auto

lemma clean_markdown_filter: "clean_markdown s = filter (\<lambda>c. c \<noteq> CHR ''*'') s"
  by (simp add: clean_markdown_def replace_star_def filter_replace_double_star)

lemma clean_markdown_no_star: "CHR ''*'' \<notin> set (clean_markdown s)"
  by (simp add: clean_markdown_filter)

lemma clean_markdown_append: "clean_markdown (s @ t) = clean_markdown s @ clean_markdown t"
  by (simp add: clean_markdown_filter)

lemma clean_markdown_id: "CHR ''*'' \<notin> set s \<Longrightarrow> clean_markdown s = s"
  by (auto simp: clean_markdown_filter filter_id_conv)

lemma length_slice_last: "length (slice_last n xs) \<le> n"
  by (simp add: slice_last_def)

lemma slice_last_short: "length xs \<le> n \<Longrightarrow> slice_last n xs = xs"
  by (simp add: slice_last_def)

lemma slice_last_append: "slice_last n (slice_last n xs @ ys) = slice_last n (xs @ ys)"
proof (cases "length xs \<le> n")
  case True
  then show ?thesis by (simp add: slice_last_def)
next
  case False
  then have "length xs + length ys - (length xs - n + n) + (length xs - n) = length xs + length ys - n"
    by arith
  then show ?thesis by (simp add: slice_last_def)
qed

lemma chunk_words_fill:
  "length cur < 50 \<Longrightarrow> 50 \<le> length cur + length ws \<Longrightarrow>
   chunk_words ws cur chunks =
     chunk_words (drop (50 - length cur) ws) [] (chunks @ [join_space (cur @ take (50 - length cur) ws)])"
proof (induction ws arbitrary: cur)
  case Nil
  then show ?case by simp
next
  case (Cons w ws)
  show ?case
  proof (cases "length cur = 49")
    case True
    then show ?thesis by simp
  next
    case False
    with Cons.prems have "length (cur @ [w]) < 50" "50 \<le> length (cur @ [w]) + length ws" by auto
    from Cons.IH[OF this] False Cons.prems show ?thesis
      by (simp add: Suc_diff_le take_Cons' drop_Cons')
  qed
qed

lemma chunk_words_rest:
  "length cur + length ws < 50 \<Longrightarrow>
   chunk_words ws cur chunks = (if cur @ ws = [] then chunks else chunks @ [join_space (cur @ ws)])"
  by (induction ws arbitrary: cur) auto

lemma chunk_words_120:
  assumes "length ws = 120"
  shows "chunk_words ws [] [] =
    [join_space (take 50 ws), join_space (take 50 (drop 50 ws)), join_space (drop 100 ws)]"
proof -
  have 1: "chunk_words ws [] [] = chunk_words (drop 50 ws) [] [join_space (take 50 ws)]"
    using chunk_words_fill[of "[]" ws "[]"] assms by simp
  have 2: "chunk_words (drop 50 ws) [] [join_space (take 50 ws)] =
           chunk_words (drop 100 ws) [] [join_space (take 50 ws), join_space (take 50 (drop 50 ws))]"
    using chunk_words_fill[of "[]" "drop 50 ws" "[join_space (take 50 ws)]"] assms by simp
  have 3: "drop 100 ws \<noteq> []" using assms by auto
  show ?thesis
    unfolding 1 2 using chunk_words_rest[of "[]" "drop 100 ws"] assms 3 by simp
qed

section \<open>Facts about outcomes\<close>

lemma respond_simps:
  "sent (respond code b st cs ss) = \<lparr>status = code, body = b\<rparr>"
  "store_after (respond code b st cs ss) = st"
  "completion_calls (respond code b st cs ss) = cs"
  "speech_calls (respond code b st cs ss) = ss"
  by (simp_all add: respond_def)

lemma upstream_failure_simps:
  "store_after (upstream_failure l g e msg st cs) = st"
  "completion_calls (upstream_failure l g e msg st cs) = cs"
  "speech_calls (upstream_failure l g e msg st cs) = []"
  "sent (upstream_failure l g e msg st cs) =
     (if msg \<noteq> [] \<and> str_includes msg ''rate limit exceeded''
      then \<lparr>status = 429, body = RetryBody l 60\<rparr>
      else \<lparr>status = 500,
            body = DetailBody g (if NODE_ENV e = Some ''development'' then Some msg else None)\<rparr>)"
  by (simp_all add: upstream_failure_def respond_simps)

lemma missing_message_simps:
  "sent (missing_message st) = \<lparr>status = 400, body = ErrorBody ''Message is required''\<rparr>"
  "store_after (missing_message st) = st"
  "completion_calls (missing_message st) = []"
  "speech_calls (missing_message st) = []"
  by (simp_all add: missing_message_def respond_simps)

lemmas outcome_simps = respond_simps upstream_failure_simps missing_message_simps

lemma example_simps:
  "message (text_body m sid) = Some m" "sessionId (text_body m sid) = Some sid"
  "voiceSettings (text_body m sid) = SettingsAbsent" "model (text_body m sid) = None"
  "voiceId (text_body m sid) = None" "selectedRole (text_body m sid) = None"
  "ttsEnabled (text_body m sid) = False"
  "message (spoken_body m sid vid) = Some m" "sessionId (spoken_body m sid vid) = Some sid"
  "voiceSettings (spoken_body m sid vid) = SettingsAbsent" "model (spoken_body m sid vid) = None"
  "voiceId (spoken_body m sid vid) = Some vid" "selectedRole (spoken_body m sid vid) = None"
  "ttsEnabled (spoken_body m sid vid) = True"
  "NODE_ENV production = Some ''production''" "ELEVENLABS_VOICE_ID production = None"
  "NODE_ENV development = Some ''development''" "ELEVENLABS_VOICE_ID development = None"
  "answering raw rq = Resolved (Some raw)" "failing msg rq = Rejected msg"
  "speech_down srq = None" "speech_up srq = Some ''QUJD''"
  by (simp_all add: text_body_def spoken_body_def production_def development_def
        answering_def failing_def speech_down_def speech_up_def)

section \<open>Facts about role resolution\<close>

lemma lookup_role_None [simp]: "lookup_role table None = None"
  by (simp add: lookup_role_def)

lemma lawyer_A_own: "get_property presetPrompts_A ''lawyer'' = Some (Own lawyer_A)"
  by (simp add: get_property_def presetPrompts_A_def)

lemma roleConfig_A_total: "\<exists>c. roleConfig_A selected = Some c"
  by (cases "lookup_role presetPrompts_A selected") (simp_all add: roleConfig_A_def lawyer_A_own)

lemma roleConfig_A_None: "roleConfig_A None = Some (Own lawyer_A)"
  by (simp add: roleConfig_A_def lawyer_A_own)

lemma roleConfig_B_None: "roleConfig_B None = Own saul_fallback"
  by (simp add: roleConfig_B_def)

section \<open>The paths through /chat\<close>

text \<open>The request a \<^verbatim>\<open>/chat\<close> call sends to the completion API, per version.\<close>

lemma chat_A_missing:
  "\<not> truthy (message b) \<Longrightarrow> chat_A e groq api b st = missing_message st"
  by (cases "message b") (simp_all add: chat_A_def truthy_def)

lemma chat_B_missing:
  "\<not> truthy (message b) \<Longrightarrow> chat_B e groq api b st = missing_message st"
  by (cases "message b") (simp_all add: chat_B_def truthy_def)

lemma chat_C_missing:
  "\<not> truthy (message b) \<Longrightarrow> chat_C e groq api b st = missing_message st"
  by (cases "message b") (simp_all add: chat_C_def truthy_def)

lemma chat_A_Rejected:
  assumes "message b = Some m" "m \<noteq> []" "roleConfig_A (selectedRole b) = Some c"
    and "groq (chat_request_A c (history_of st (sessionId b)) m) = Rejected msg"
  shows "chat_A e groq api b st =
         upstream_failure limited_A generic_A e msg st
           [chat_request_A c (history_of st (sessionId b)) m]"
  by (simp add: chat_A_def Let_def assms)

lemma chat_A_Resolved:
  assumes "message b = Some m" "m \<noteq> []" "roleConfig_A (selectedRole b) = Some c"
    and "groq (chat_request_A c (history_of st (sessionId b)) m) = Resolved r"
  shows "chat_A e groq api b st =
         respond 200
           (ChatBody_A (or_text r ''Sorry, I couldn't generate a response.'')
              (fst (if ttsEnabled b \<and> truthy (voiceId b)
                    then generateSpeech_A api (or_text r ''Sorry, I couldn't generate a response.'')
                           (voiceSettings b) (js_string (voiceId b))
                    else (None, []))))
           (st(sessionId b \<mapsto>
              slice_last 6
                (history_of st (sessionId b)
                 @ [\<lparr>role = User, content = Some m\<rparr>,
                    \<lparr>role = Assistant,
                     content = Some (or_text r ''Sorry, I couldn't generate a response.'')\<rparr>])))
           [chat_request_A c (history_of st (sessionId b)) m]
           (snd (if ttsEnabled b \<and> truthy (voiceId b)
                 then generateSpeech_A api (or_text r ''Sorry, I couldn't generate a response.'')
                        (voiceSettings b) (js_string (voiceId b))
                 else (None, [])))"
  by (simp add: chat_A_def Let_def assms)

lemma chat_B_Rejected:
  assumes "message b = Some m" "m \<noteq> []"
    and "groq (chat_request_B ''mixtral-8x7b-32768'' (roleConfig_B (selectedRole b))
           (history_of st (sessionId b)) m (model b)) = Rejected msg"
  shows "chat_B e groq api b st =
         upstream_failure limited_B generic_B e msg st
           [chat_request_B ''mixtral-8x7b-32768'' (roleConfig_B (selectedRole b))
              (history_of st (sessionId b)) m (model b)]"
  by (simp add: chat_B_def Let_def assms)

lemma chat_B_Resolved:
  assumes "message b = Some m" "m \<noteq> []"
    and "groq (chat_request_B ''mixtral-8x7b-32768'' (roleConfig_B (selectedRole b))
           (history_of st (sessionId b)) m (model b)) = Resolved r"
  shows "chat_B e groq api b st =
         respond 200
           (ChatBody_A
              (or_text r ''I apologize, but I couldn't generate a response at the moment.'')
              (fst (if ttsEnabled b
                    then generateSpeech_B e api
                           (or_text r ''I apologize, but I couldn't generate a response at the moment.'')
                           (voiceSettings b) (voiceId b)
                    else (None, []))))
           (st(sessionId b \<mapsto>
              history_of st (sessionId b)
              @ [\<lparr>role = User, content = Some m\<rparr>,
                 \<lparr>role = Assistant,
                  content = Some (or_text r
                      ''I apologize, but I couldn't generate a response at the moment.'')\<rparr>]))
           [chat_request_B ''mixtral-8x7b-32768'' (roleConfig_B (selectedRole b))
              (history_of st (sessionId b)) m (model b)]
           (snd (if ttsEnabled b
                 then generateSpeech_B e api
                        (or_text r ''I apologize, but I couldn't generate a response at the moment.'')
                        (voiceSettings b) (voiceId b)
                 else (None, [])))"
  by (simp add: chat_B_def Let_def assms)

lemma chat_C_failed:
  assumes "message b = Some m" "m \<noteq> []"
    and "groq (chat_request_B ''llama-3.1-70b-versatile'' (roleConfig_B (selectedRole b))
           (history_of st (sessionId b)) m (model b)) = Rejected msg
         \<or> groq (chat_request_B ''llama-3.1-70b-versatile'' (roleConfig_B (selectedRole b))
           (history_of st (sessionId b)) m (model b)) = Resolved None"
  shows "chat_C e groq api b st =
         respond 500 (ErrorBody ''An error occurred while processing your request'') st
           [chat_request_B ''llama-3.1-70b-versatile'' (roleConfig_B (selectedRole b))
              (history_of st (sessionId b)) m (model b)] []"
  using assms(3) by (auto simp: chat_C_def Let_def assms(1,2))

lemma chat_C_Resolved:
  assumes "message b = Some m" "m \<noteq> []"
    and "groq (chat_request_B ''llama-3.1-70b-versatile'' (roleConfig_B (selectedRole b))
           (history_of st (sessionId b)) m (model b)) = Resolved (Some raw)"
  shows "chat_C e groq api b st =
         respond 200
           (ChatBody_C
              (clean_markdown
                 (introduce (history_of st (sessionId b) = []) (roleConfig_B (selectedRole b)) raw))
              (fst (if ttsEnabled b
                    then speak_chunks e api
                           (clean_markdown
                              (introduce (history_of st (sessionId b) = [])
                                 (roleConfig_B (selectedRole b)) raw))
                           (voiceSettings b) (voiceId b)
                    else ([], []))))
           (st(sessionId b \<mapsto>
              slice_last 10
                (history_of st (sessionId b)
                 @ [\<lparr>role = User, content = Some m\<rparr>,
                    \<lparr>role = Assistant,
                     content = Some (clean_markdown
                        (introduce (history_of st (sessionId b) = [])
                           (roleConfig_B (selectedRole b)) raw))\<rparr>])))
           [chat_request_B ''llama-3.1-70b-versatile'' (roleConfig_B (selectedRole b))
              (history_of st (sessionId b)) m (model b)]
           (snd (if ttsEnabled b
                 then speak_chunks e api
                        (clean_markdown
                           (introduce (history_of st (sessionId b) = [])
                              (roleConfig_B (selectedRole b)) raw))
                        (voiceSettings b) (voiceId b)
                 else ([], [])))"
  by (simp add: chat_C_def Let_def assms)

text \<open>Every call with a message sends exactly one completion request; a call without
  one sends none.\<close>

lemma chat_A_calls:
  assumes "message b = Some m" "m \<noteq> []" "roleConfig_A (selectedRole b) = Some c"
  shows "completion_calls (chat_A e groq api b st) =
         [chat_request_A c (history_of st (sessionId b)) m]"
proof (cases "groq (chat_request_A c (history_of st (sessionId b)) m)")
  case (Rejected msg)
  show ?thesis by (simp add: chat_A_Rejected[where groq = groq, OF assms Rejected] upstream_failure_simps)
next
  case (Resolved r)
  show ?thesis by (simp only: chat_A_Resolved[where groq = groq, OF assms Resolved] respond_simps)
qed

lemma chat_B_calls:
  assumes "message b = Some m" "m \<noteq> []"
  shows "completion_calls (chat_B e groq api b st) =
         [chat_request_B ''mixtral-8x7b-32768'' (roleConfig_B (selectedRole b))
            (history_of st (sessionId b)) m (model b)]"
proof (cases "groq (chat_request_B ''mixtral-8x7b-32768'' (roleConfig_B (selectedRole b))
            (history_of st (sessionId b)) m (model b))")
  case (Rejected msg)
  show ?thesis by (simp add: chat_B_Rejected[where groq = groq, OF assms Rejected] upstream_failure_simps)
next
  case (Resolved r)
  show ?thesis by (simp only: chat_B_Resolved[where groq = groq, OF assms Resolved] respond_simps)
qed

lemma chat_C_calls:
  assumes "message b = Some m" "m \<noteq> []"
  shows "completion_calls (chat_C e groq api b st) =
         [chat_request_B ''llama-3.1-70b-versatile'' (roleConfig_B (selectedRole b))
            (history_of st (sessionId b)) m (model b)]"
proof (cases "groq (chat_request_B ''llama-3.1-70b-versatile'' (roleConfig_B (selectedRole b))
            (history_of st (sessionId b)) m (model b))")
  case (Rejected msg)
  then show ?thesis by (simp add: chat_C_failed[where groq = groq, OF assms] respond_simps)
next
  case (Resolved r)
  show ?thesis
  proof (cases r)
    case None
    with Resolved show ?thesis by (simp add: chat_C_failed[where groq = groq, OF assms] respond_simps)
  next
    case (Some raw)
    with Resolved have "groq (chat_request_B ''llama-3.1-70b-versatile''
        (roleConfig_B (selectedRole b)) (history_of st (sessionId b)) m (model b))
        = Resolved (Some raw)" by simp
    from chat_C_Resolved[where groq = groq, OF assms this] show ?thesis by (simp only: respond_simps)
  qed
qed

lemma message_cases:
  obtains "\<not> truthy (message b)" | m where "message b = Some m" "m \<noteq> []"
  by (cases "message b") (auto simp: truthy_def)

section \<open>Failure of the completion API in /chat\<close>

lemma chat_A_call_rejected:
  assumes "rq \<in> set (completion_calls (chat_A e groq api b st))" and "groq rq = Rejected msg"
  shows "chat_A e groq api b st = upstream_failure limited_A generic_A e msg st [rq]"
proof (cases b rule: message_cases)
  case 1
  with assms(1) show ?thesis by (simp add: chat_A_missing missing_message_simps)
next
  case (2 m)
  obtain c where c: "roleConfig_A (selectedRole b) = Some c"
    using roleConfig_A_total by blast
  from assms(1) have "rq = chat_request_A c (history_of st (sessionId b)) m"
    by (simp add: chat_A_calls[OF 2 c])
  with assms(2) chat_A_Rejected[where groq = groq, OF 2 c] show ?thesis by simp
qed

lemma chat_B_call_rejected:
  assumes "rq \<in> set (completion_calls (chat_B e groq api b st))" and "groq rq = Rejected msg"
  shows "chat_B e groq api b st = upstream_failure limited_B generic_B e msg st [rq]"
proof (cases b rule: message_cases)
  case 1
  with assms(1) show ?thesis by (simp add: chat_B_missing missing_message_simps)
next
  case (2 m)
  from assms(1) have "rq = chat_request_B ''mixtral-8x7b-32768'' (roleConfig_B (selectedRole b))
            (history_of st (sessionId b)) m (model b)"
    by (simp add: chat_B_calls[OF 2])
  with assms(2) chat_B_Rejected[where groq = groq, OF 2] show ?thesis by simp
qed

lemma chat_C_call_rejected:
  assumes "rq \<in> set (completion_calls (chat_C e groq api b st))" and "groq rq = Rejected msg"
  shows "chat_C e groq api b st =
         respond 500 (ErrorBody ''An error occurred while processing your request'') st [rq] []"
proof (cases b rule: message_cases)
  case 1
  with assms(1) show ?thesis by (simp add: chat_C_missing missing_message_simps)
next
  case (2 m)
  from assms(1) have "rq = chat_request_B ''llama-3.1-70b-versatile'' (roleConfig_B (selectedRole b))
            (history_of st (sessionId b)) m (model b)"
    by (simp add: chat_C_calls[OF 2])
  with assms(2) chat_C_failed[where groq = groq, OF 2] show ?thesis by simp
qed

text \<open>
  Claim C10. When the completion API rejects the request of a \<^verbatim>\<open>/chat\<close> call, the
  session store after the call is the store before it, in each of the three versions: the
  two new turns are written only after the completion has resolved.
\<close>

theorem chat_failure_keeps_history:
  assumes handler: "handler = chat_A \<or> handler = chat_B \<or> handler = chat_C"
    and sent_rq: "rq \<in> set (completion_calls (handler e groq api b st))"
    and rejected: "groq rq = Rejected msg"
  shows "store_after (handler e groq api b st) = st"
proof -
  consider "handler = chat_A" | "handler = chat_B" | "handler = chat_C"
    using handler by blast
  then show ?thesis
  proof cases
    case 1
    with sent_rq rejected show ?thesis
      by (simp add: chat_A_call_rejected upstream_failure_simps)
  next
    case 2
    with sent_rq rejected show ?thesis
      by (simp add: chat_B_call_rejected upstream_failure_simps)
  next
    case 3
    with sent_rq rejected show ?thesis
      by (simp add: chat_C_call_rejected respond_simps)
  qed
qed

lemma chat_A_failing_calls:
  "completion_calls (chat_A e (failing msg) api (text_body ''hi'' sid) st) =
   [chat_request_A (Own lawyer_A) (history_of st (Some sid)) ''hi'']"
  by (simp add: chat_A_def example_simps roleConfig_A_None upstream_failure_simps)

lemma chat_B_failing_calls:
  "completion_calls (chat_B e (failing msg) api (text_body ''hi'' sid) st) =
   [chat_request_B ''mixtral-8x7b-32768'' (Own saul_fallback) (history_of st (Some sid)) ''hi'' None]"
  by (simp add: chat_B_def example_simps roleConfig_B_None upstream_failure_simps)

lemma chat_C_failing_calls:
  "completion_calls (chat_C e (failing msg) api (text_body ''hi'' sid) st) =
   [chat_request_B ''llama-3.1-70b-versatile'' (Own saul_fallback) (history_of st (Some sid)) ''hi'' None]"
  by (simp add: chat_C_def example_simps roleConfig_B_None respond_simps)

theorem chat_failure_keeps_history_witness:
  "store_after (chat_A production (failing ''boom'') speech_down (text_body ''hi'' ''s1'')
      [Some ''s1'' \<mapsto> [\<lparr>role = User, content = Some ''earlier''\<rparr>]])
     = [Some ''s1'' \<mapsto> [\<lparr>role = User, content = Some ''earlier''\<rparr>]]
   \<and> store_after (chat_B production (failing ''boom'') speech_down (text_body ''hi'' ''s1'')
      [Some ''s1'' \<mapsto> [\<lparr>role = User, content = Some ''earlier''\<rparr>]])
     = [Some ''s1'' \<mapsto> [\<lparr>role = User, content = Some ''earlier''\<rparr>]]
   \<and> store_after (chat_C production (failing ''boom'') speech_down (text_body ''hi'' ''s1'')
      [Some ''s1'' \<mapsto> [\<lparr>role = User, content = Some ''earlier''\<rparr>]])
     = [Some ''s1'' \<mapsto> [\<lparr>role = User, content = Some ''earlier''\<rparr>]]"
proof -
  let ?st = "[Some ''s1'' \<mapsto> [\<lparr>role = User, content = Some ''earlier''\<rparr>]]"
  let ?b = "text_body ''hi'' ''s1''"
  have a: "store_after (chat_A production (failing ''boom'') speech_down ?b ?st) = ?st"
    by (rule chat_failure_keeps_history[where handler = chat_A and msg = "''boom''"])
       (simp_all add: chat_A_failing_calls example_simps)
  have b: "store_after (chat_B production (failing ''boom'') speech_down ?b ?st) = ?st"
    by (rule chat_failure_keeps_history[where handler = chat_B and msg = "''boom''"])
       (simp_all add: chat_B_failing_calls example_simps)
  have c: "store_after (chat_C production (failing ''boom'') speech_down ?b ?st) = ?st"
    by (rule chat_failure_keeps_history[where handler = chat_C and msg = "''boom''"])
       (simp_all add: chat_C_failing_calls example_simps)
  from a b c show ?thesis by simp
qed

section \<open>The response to a completion failure\<close>

lemma rate_limit_nonempty: "str_includes msg ''rate limit exceeded'' \<Longrightarrow> msg \<noteq> []"
  by auto

lemma chat_A_failure_response:
  assumes "rq \<in> set (completion_calls (chat_A e groq api b st))" and "groq rq = Rejected msg"
  shows "sent (chat_A e groq api b st) =
           (if str_includes msg ''rate limit exceeded''
            then \<lparr>status = 429, body = RetryBody limited_A 60\<rparr>
            else \<lparr>status = 500,
                  body = DetailBody generic_A
                           (if NODE_ENV e = Some ''development'' then Some msg else None)\<rparr>)"
    and "completion_calls (chat_A e groq api b st) = [rq]"
    and "speech_calls (chat_A e groq api b st) = []"
  using rate_limit_nonempty[of msg]
  by (auto simp: chat_A_call_rejected[OF assms] upstream_failure_simps)

lemma chat_B_failure_response:
  assumes "rq \<in> set (completion_calls (chat_B e groq api b st))" and "groq rq = Rejected msg"
  shows "sent (chat_B e groq api b st) =
           (if str_includes msg ''rate limit exceeded''
            then \<lparr>status = 429, body = RetryBody limited_B 60\<rparr>
            else \<lparr>status = 500,
                  body = DetailBody generic_B
                           (if NODE_ENV e = Some ''development'' then Some msg else None)\<rparr>)"
    and "completion_calls (chat_B e groq api b st) = [rq]"
    and "speech_calls (chat_B e groq api b st) = []"
  using rate_limit_nonempty[of msg]
  by (auto simp: chat_B_call_rejected[OF assms] upstream_failure_simps)

lemma chat_C_failure_response:
  assumes "rq \<in> set (completion_calls (chat_C e groq api b st))" and "groq rq = Rejected msg"
  shows "sent (chat_C e groq api b st) =
           \<lparr>status = 500, body = ErrorBody ''An error occurred while processing your request''\<rparr>"
    and "completion_calls (chat_C e groq api b st) = [rq]"
    and "speech_calls (chat_C e groq api b st) = []"
  by (simp_all add: chat_C_call_rejected[OF assms] respond_simps)

text \<open>
  Claim C4, as the code has it. Let a \<^verbatim>\<open>/chat\<close> call send a completion request that
  the completion API rejects with an error message \<open>msg\<close>.
  \<^item> In versions A and B: when \<open>msg\<close> contains \<^verbatim>\<open>rate limit exceeded\<close> the response is
    429 with \<^verbatim>\<open>retryAfter: 60\<close>; otherwise it is 500 with the generic text of the
    version, and \<^verbatim>\<open>details\<close> carries \<open>msg\<close> exactly when \<^verbatim>\<open>NODE_ENV\<close> is
    \<^verbatim>\<open>development\<close>.
  \<^item> In version C the response is 500 with one fixed text, whatever the message says.
  \<^item> In every version the rejected request is the only completion request of the call (no
    retry), and no speech request is sent.
\<close>

theorem chat_completion_failure:
  assumes "rq \<in> set (completion_calls (handler e groq api b st))"
    and "groq rq = Rejected msg"
  shows "(handler = chat_A \<longrightarrow>
            sent (handler e groq api b st) =
              (if str_includes msg ''rate limit exceeded''
               then \<lparr>status = 429, body = RetryBody limited_A 60\<rparr>
               else \<lparr>status = 500,
                     body = DetailBody generic_A
                              (if NODE_ENV e = Some ''development'' then Some msg else None)\<rparr>))
       \<and> (handler = chat_B \<longrightarrow>
            sent (handler e groq api b st) =
              (if str_includes msg ''rate limit exceeded''
               then \<lparr>status = 429, body = RetryBody limited_B 60\<rparr>
               else \<lparr>status = 500,
                     body = DetailBody generic_B
                              (if NODE_ENV e = Some ''development'' then Some msg else None)\<rparr>))
       \<and> (handler = chat_C \<longrightarrow>
            sent (handler e groq api b st) =
              \<lparr>status = 500,
               body = ErrorBody ''An error occurred while processing your request''\<rparr>)
       \<and> (handler = chat_A \<or> handler = chat_B \<or> handler = chat_C \<longrightarrow>
            completion_calls (handler e groq api b st) = [rq]
            \<and> speech_calls (handler e groq api b st) = [])"
proof (intro conjI impI)
  assume "handler = chat_A"
  with assms show "sent (handler e groq api b st) =
              (if str_includes msg ''rate limit exceeded''
               then \<lparr>status = 429, body = RetryBody limited_A 60\<rparr>
               else \<lparr>status = 500,
                     body = DetailBody generic_A
                              (if NODE_ENV e = Some ''development'' then Some msg else None)\<rparr>)"
    using chat_A_failure_response(1) by blast
next
  assume "handler = chat_B"
  with assms show "sent (handler e groq api b st) =
              (if str_includes msg ''rate limit exceeded''
               then \<lparr>status = 429, body = RetryBody limited_B 60\<rparr>
               else \<lparr>status = 500,
                     body = DetailBody generic_B
                              (if NODE_ENV e = Some ''development'' then Some msg else None)\<rparr>)"
    using chat_B_failure_response(1) by blast
next
  assume "handler = chat_C"
  with assms show "sent (handler e groq api b st) =
              \<lparr>status = 500,
               body = ErrorBody ''An error occurred while processing your request''\<rparr>"
    using chat_C_failure_response(1) by blast
next
  assume "handler = chat_A \<or> handler = chat_B \<or> handler = chat_C"
  then consider "handler = chat_A" | "handler = chat_B" | "handler = chat_C" by blast
  then have "completion_calls (handler e groq api b st) = [rq]
             \<and> speech_calls (handler e groq api b st) = []"
  proof cases
    case 1
    with assms chat_A_failure_response(2,3)[where groq = groq] show ?thesis by simp
  next
    case 2
    with assms chat_B_failure_response(2,3)[where groq = groq] show ?thesis by simp
  next
    case 3
    with assms chat_C_failure_response(2,3)[where groq = groq] show ?thesis by simp
  qed
  then show "completion_calls (handler e groq api b st) = [rq]"
    and "speech_calls (handler e groq api b st) = []" by simp_all
qed

text \<open>The code run on one rejected call per version: a rate-limit message in A, another
  failure in B under \<^verbatim>\<open>development\<close>, a rate-limit message in C.\<close>

theorem chat_completion_failure_witness:
  "sent (chat_A production (failing ''429 rate limit exceeded'') speech_down
           (text_body ''hi'' ''s1'') Map.empty)
     = \<lparr>status = 429, body = RetryBody limited_A 60\<rparr>
   \<and> sent (chat_B development (failing ''socket hang up'') speech_down
           (text_body ''hi'' ''s1'') Map.empty)
     = \<lparr>status = 500, body = DetailBody generic_B (Some ''socket hang up'')\<rparr>
   \<and> sent (chat_B production (failing ''socket hang up'') speech_down
           (text_body ''hi'' ''s1'') Map.empty)
     = \<lparr>status = 500, body = DetailBody generic_B None\<rparr>
   \<and> completion_calls (chat_C production (failing ''socket hang up'') speech_down
           (text_body ''hi'' ''s1'') Map.empty)
     = [chat_request_B ''llama-3.1-70b-versatile'' (Own saul_fallback) [] ''hi'' None]"
proof -
  let ?b = "text_body ''hi'' ''s1''"
  have h: "history_of Map.empty (Some ''s1'') = []" by (simp add: history_of_def)
  have a: "sent (chat_A production (failing ''429 rate limit exceeded'') speech_down ?b Map.empty)
             = \<lparr>status = 429, body = RetryBody limited_A 60\<rparr>"
    using chat_completion_failure[where handler = chat_A and groq = "failing ''429 rate limit exceeded''"
        and e = production and api = speech_down and b = ?b and st = Map.empty
        and msg = "''429 rate limit exceeded''"
        and rq = "chat_request_A (Own lawyer_A) [] ''hi''"]
    by (simp add: chat_A_failing_calls example_simps h)
  have b1: "sent (chat_B development (failing ''socket hang up'') speech_down ?b Map.empty)
             = \<lparr>status = 500, body = DetailBody generic_B (Some ''socket hang up'')\<rparr>"
    using chat_completion_failure[where handler = chat_B and groq = "failing ''socket hang up''"
        and e = development and api = speech_down and b = ?b and st = Map.empty
        and msg = "''socket hang up''"
        and rq = "chat_request_B ''mixtral-8x7b-32768'' (Own saul_fallback) [] ''hi'' None"]
    by (simp add: chat_B_failing_calls example_simps h)
  have b2: "sent (chat_B production (failing ''socket hang up'') speech_down ?b Map.empty)
             = \<lparr>status = 500, body = DetailBody generic_B None\<rparr>"
    using chat_completion_failure[where handler = chat_B and groq = "failing ''socket hang up''"
        and e = production and api = speech_down and b = ?b and st = Map.empty
        and msg = "''socket hang up''"
        and rq = "chat_request_B ''mixtral-8x7b-32768'' (Own saul_fallback) [] ''hi'' None"]
    by (simp add: chat_B_failing_calls example_simps h)
  have c: "completion_calls (chat_C production (failing ''socket hang up'') speech_down ?b Map.empty)
             = [chat_request_B ''llama-3.1-70b-versatile'' (Own saul_fallback) [] ''hi'' None]"
    using chat_completion_failure[where handler = chat_C and groq = "failing ''socket hang up''"
        and e = production and api = speech_down and b = ?b and st = Map.empty
        and msg = "''socket hang up''"
        and rq = "chat_request_B ''llama-3.1-70b-versatile'' (Own saul_fallback) [] ''hi'' None"]
    by (simp add: chat_C_failing_calls example_simps h)
  from a b1 b2 c show ?thesis by simp
qed

text \<open>In version C a completion failure whose message reports the rate limit is answered
  with 500, not 429, and carries no retry interval.\<close>

theorem chat_C_rate_limit_is_500:
  "str_includes ''429 rate limit exceeded'' ''rate limit exceeded''
   \<and> completion_calls (chat_C production (failing ''429 rate limit exceeded'') speech_down
          (text_body ''hi'' ''s1'') Map.empty) \<noteq> []
   \<and> sent (chat_C production (failing ''429 rate limit exceeded'') speech_down
          (text_body ''hi'' ''s1'') Map.empty)
       = \<lparr>status = 500, body = ErrorBody ''An error occurred while processing your request''\<rparr>"
proof -
  have 1: "str_includes ''429 rate limit exceeded'' ''rate limit exceeded''" by simp
  have 2: "chat_C production (failing ''429 rate limit exceeded'') speech_down
          (text_body ''hi'' ''s1'') Map.empty
        = respond 500 (ErrorBody ''An error occurred while processing your request'') Map.empty
            [chat_request_B ''llama-3.1-70b-versatile'' (roleConfig_B None)
               (history_of Map.empty (Some ''s1'')) ''hi'' None] []"
    using chat_C_failed[where groq = "failing ''429 rate limit exceeded''" and e = production
        and api = speech_down and b = "text_body ''hi'' ''s1''" and st = Map.empty and m = "''hi''"
        and msg = "''429 rate limit exceeded''"]
    by (simp add: example_simps)
  show ?thesis using 1 by (simp add: 2 respond_simps)
qed

section \<open>The range check of /voice-settings\<close>

text \<open>
  Claim C8. With numbers for both fields, \<^verbatim>\<open>/voice-settings\<close> answers 400 exactly when
  \<open>stability\<close> or \<open>similarity_boost\<close> is below 0 or above 1, and answers the
  acknowledgment exactly when both lie in the closed range from 0 to 1; it never changes
  the session store and calls no remote service.
\<close>

theorem voice_settings_range:
  "(sent (voice_settings_handler (Some s) (Some b) st)
      = \<lparr>status = 400, body = ErrorBody ''Values must be between 0 and 1''\<rparr>)
     = (s < 0 \<or> 1 < s \<or> b < 0 \<or> 1 < b)
   \<and> (sent (voice_settings_handler (Some s) (Some b) st)
      = \<lparr>status = 200, body = StatusBody ''Settings updated''\<rparr>)
     = (0 \<le> s \<and> s \<le> 1 \<and> 0 \<le> b \<and> b \<le> 1)
   \<and> store_after (voice_settings_handler (Some s) (Some b) st) = st
   \<and> completion_calls (voice_settings_handler (Some s) (Some b) st) = []
   \<and> speech_calls (voice_settings_handler (Some s) (Some b) st) = []"
proof (cases "s < 0 \<or> 1 < s \<or> b < 0 \<or> 1 < b")
  case True
  then have "voice_settings_handler (Some s) (Some b) st
             = respond 400 (ErrorBody ''Values must be between 0 and 1'') st [] []"
    by (simp add: voice_settings_handler_def js_less_def js_greater_def)
  with True show ?thesis by (auto simp: respond_simps)
next
  case False
  then have "voice_settings_handler (Some s) (Some b) st
             = respond 200 (StatusBody ''Settings updated'') st [] []"
    by (simp add: voice_settings_handler_def js_less_def js_greater_def)
  with False show ?thesis by (auto simp: respond_simps)
qed

text \<open>The boundary values 0 and 1 are accepted; a value just outside is not.\<close>

theorem voice_settings_range_witness:
  "sent (voice_settings_handler (Some 0) (Some 1) Map.empty)
     = \<lparr>status = 200, body = StatusBody ''Settings updated''\<rparr>
   \<and> sent (voice_settings_handler (Some 1) (Some 0) Map.empty)
     = \<lparr>status = 200, body = StatusBody ''Settings updated''\<rparr>
   \<and> sent (voice_settings_handler (Some (11 / 10)) (Some (1 / 2)) Map.empty)
     = \<lparr>status = 400, body = ErrorBody ''Values must be between 0 and 1''\<rparr>
   \<and> sent (voice_settings_handler (Some (1 / 2)) (Some (- 1 / 10)) Map.empty)
     = \<lparr>status = 400, body = ErrorBody ''Values must be between 0 and 1''\<rparr>"
  using voice_settings_range[of 0 1 Map.empty] voice_settings_range[of 1 0 Map.empty]
    voice_settings_range[of "11 / 10" "1 / 2" Map.empty]
    voice_settings_range[of "1 / 2" "- 1 / 10" Map.empty]
  by simp

text \<open>A field that is absent compares as false on both sides, so it is accepted.\<close>

lemma voice_settings_absent:
  "sent (voice_settings_handler None None st)
     = \<lparr>status = 200, body = StatusBody ''Settings updated''\<rparr>"
  by (simp add: voice_settings_handler_def js_less_def js_greater_def respond_simps)

section \<open>Initialising a session\<close>

lemma own_keys_A: "presetPrompts_A k = Some p \<Longrightarrow> k \<noteq> []"
  by (auto simp: presetPrompts_A_def)

lemma own_keys_B: "presetPrompts_B k = Some p \<Longrightarrow> k \<noteq> []"
  by (auto simp: presetPrompts_B_def)

lemma lookup_own_A:
  "presetPrompts_A k = Some p \<Longrightarrow> lookup_role presetPrompts_A (Some k) = Some (Own p)"
  using own_keys_A[of k p] by (simp add: lookup_role_def get_property_def)

lemma lookup_own_B:
  "presetPrompts_B k = Some p \<Longrightarrow> lookup_role presetPrompts_B (Some k) = Some (Own p)"
  using own_keys_B[of k p] by (simp add: lookup_role_def get_property_def)

lemma voice_keys: "(roleToVoice k = None) = (presetPrompts_A k = None)"
  by (simp add: roleToVoice_def presetPrompts_A_def)

lemma lookup_voice_truthy:
  "lookup_role presetPrompts_A key = Some c \<Longrightarrow> \<exists>v. lookup_role roleToVoice key = Some v"
  using voice_keys
  by (cases key) (auto simp: lookup_role_def get_property_def split: option.splits if_splits)

lemma init_A_failed:
  assumes "lookup_role presetPrompts_A key = Some c"
    and "groq (init_request c) = Rejected msg \<or> groq (init_request c) = Resolved None"
  shows "init_A groq api key sid st =
         respond 500 (ErrorBody ''Error initializing AI role. Please try again.'')
           (st(sid \<mapsto> [])) [init_request c] []"
  using assms(2) by (auto simp: init_A_def Let_def assms(1))

lemma init_B_failed:
  assumes "lookup_role presetPrompts_B key = Some c"
    and "groq (init_request c) = Rejected msg \<or> groq (init_request c) = Resolved None"
  shows "init_B groq api key sid st =
         respond 500 (ErrorBody ''An error occurred while initializing the chat'')
           (st(sid \<mapsto> [])) [init_request c] []"
  using assms(2) by (auto simp: init_B_def Let_def assms(1))

lemma init_A_Resolved:
  assumes "lookup_role presetPrompts_A key = Some c"
    and "groq (init_request c) = Resolved (Some raw)"
  shows "sent (init_A groq api key sid st) =
           \<lparr>status = 200,
            body = InitBody_A (clean_markdown raw)
                     (fst (case lookup_role roleToVoice key of
                             None \<Rightarrow> (None, [])
                           | Some v \<Rightarrow> generateSpeech_A api (clean_markdown raw)
                                        (Settings None None) (voice_string v)))\<rparr>"
    and "store_after (init_A groq api key sid st) = st(sid \<mapsto> seed_history c (clean_markdown raw))"
    and "completion_calls (init_A groq api key sid st) = [init_request c]"
  by (simp_all add: init_A_def Let_def assms respond_simps)

lemma init_B_Resolved:
  assumes "lookup_role presetPrompts_B key = Some c"
    and "groq (init_request c) = Resolved (Some raw)"
  shows "init_B groq api key sid st =
         respond 200 (InitBody_B (clean_markdown raw) [])
           (st(sid \<mapsto> seed_history c (clean_markdown raw))) [init_request c] []"
  by (simp add: init_B_def Let_def assms)

lemma doctor_own:
  "presetPrompts_A ''doctor'' = Some doctor_A" "presetPrompts_B ''doctor'' = Some doctor_B"
  by (simp_all add: presetPrompts_A_def presetPrompts_B_def)

text \<open>
  Claim C9. When \<^verbatim>\<open>/init\<close> is called with a role key of the persona table and the
  completion API rejects the request, the response is 500 and the store holds the empty
  history for the session, whatever it held before: the handler empties the history
  before it calls the completion API and does not restore it.
\<close>

theorem init_failure_empties_history:
  "(presetPrompts_A k = Some p \<and> groq (init_request (Own p)) = Rejected msg \<longrightarrow>
      sent (init_A groq api (Some k) sid st)
        = \<lparr>status = 500, body = ErrorBody ''Error initializing AI role. Please try again.''\<rparr>
      \<and> store_after (init_A groq api (Some k) sid st) = st(sid \<mapsto> []))
   \<and> (presetPrompts_B k = Some q \<and> groq (init_request (Own q)) = Rejected msg \<longrightarrow>
      sent (init_B groq api (Some k) sid st)
        = \<lparr>status = 500, body = ErrorBody ''An error occurred while initializing the chat''\<rparr>
      \<and> store_after (init_B groq api (Some k) sid st) = st(sid \<mapsto> []))"
proof (intro conjI impI)
  assume a: "presetPrompts_A k = Some p \<and> groq (init_request (Own p)) = Rejected msg"
  then have "init_A groq api (Some k) sid st =
         respond 500 (ErrorBody ''Error initializing AI role. Please try again.'')
           (st(sid \<mapsto> [])) [init_request (Own p)] []"
    using init_A_failed[where groq = groq and c = "Own p" and key = "Some k" and msg = msg]
    by (simp add: lookup_own_A)
  then show "sent (init_A groq api (Some k) sid st)
        = \<lparr>status = 500, body = ErrorBody ''Error initializing AI role. Please try again.''\<rparr>"
    and "store_after (init_A groq api (Some k) sid st) = st(sid \<mapsto> [])"
    by (simp_all add: respond_simps)
next
  assume b: "presetPrompts_B k = Some q \<and> groq (init_request (Own q)) = Rejected msg"
  then have "init_B groq api (Some k) sid st =
         respond 500 (ErrorBody ''An error occurred while initializing the chat'')
           (st(sid \<mapsto> [])) [init_request (Own q)] []"
    using init_B_failed[where groq = groq and c = "Own q" and key = "Some k" and msg = msg]
    by (simp add: lookup_own_B)
  then show "sent (init_B groq api (Some k) sid st)
        = \<lparr>status = 500, body = ErrorBody ''An error occurred while initializing the chat''\<rparr>"
    and "store_after (init_B groq api (Some k) sid st) = st(sid \<mapsto> [])"
    by (simp_all add: respond_simps)
qed

text \<open>A session with one stored turn, re-initialised as the doctor while the completion
  API is down: the turn is gone although the call reports a failure.\<close>

theorem init_failure_empties_history_witness:
  "status (sent (init_A (failing ''boom'') speech_down (Some ''doctor'') (Some ''s1'')
      [Some ''s1'' \<mapsto> [\<lparr>role = User, content = Some ''earlier''\<rparr>]])) = 500
   \<and> store_after (init_A (failing ''boom'') speech_down (Some ''doctor'') (Some ''s1'')
      [Some ''s1'' \<mapsto> [\<lparr>role = User, content = Some ''earlier''\<rparr>]]) (Some ''s1'') = Some []
   \<and> status (sent (init_B (failing ''boom'') speech_down (Some ''doctor'') (Some ''s1'')
      [Some ''s1'' \<mapsto> [\<lparr>role = User, content = Some ''earlier''\<rparr>]])) = 500
   \<and> store_after (init_B (failing ''boom'') speech_down (Some ''doctor'') (Some ''s1'')
      [Some ''s1'' \<mapsto> [\<lparr>role = User, content = Some ''earlier''\<rparr>]]) (Some ''s1'') = Some []"
  using init_failure_empties_history[where k = "''doctor''" and p = doctor_A and q = doctor_B
      and groq = "failing ''boom''" and msg = "''boom''" and api = speech_down
      and sid = "Some ''s1''"
      and st = "[Some ''s1'' \<mapsto> [\<lparr>role = User, content = Some ''earlier''\<rparr>]]"]
  by (simp add: doctor_own example_simps)

text \<open>
  Claim C2, as the code has it. When \<^verbatim>\<open>/init\<close> is called with a role key of the persona
  table and the completion resolves with a content \<open>raw\<close>, the response is 200, the
  greeting is \<open>raw\<close> with every \<open>*\<close> removed, and the stored history of the session is
  exactly three entries: the persona's system prompt, the fixed user turn and the
  greeting as the assistant turn. The greeting contains no \<open>*\<close>; it is empty exactly when
  \<open>raw\<close> consists of stars only (or is empty).
\<close>

theorem init_success:
  "(presetPrompts_A k = Some p \<and> groq (init_request (Own p)) = Resolved (Some raw) \<longrightarrow>
      status (sent (init_A groq api (Some k) sid st)) = 200
      \<and> (\<exists>audio. body (sent (init_A groq api (Some k) sid st))
                    = InitBody_A (clean_markdown raw) audio)
      \<and> store_after (init_A groq api (Some k) sid st) sid
          = Some [\<lparr>role = System, content = Some (system p)\<rparr>,
                  \<lparr>role = User, content = Some ''Hello, could you introduce yourself?''\<rparr>,
                  \<lparr>role = Assistant, content = Some (clean_markdown raw)\<rparr>]
      \<and> length (history_of (store_after (init_A groq api (Some k) sid st)) sid) = 3)
   \<and> (presetPrompts_B k = Some q \<and> groq (init_request (Own q)) = Resolved (Some raw) \<longrightarrow>
      sent (init_B groq api (Some k) sid st)
        = \<lparr>status = 200, body = InitBody_B (clean_markdown raw) []\<rparr>
      \<and> store_after (init_B groq api (Some k) sid st) sid
          = Some [\<lparr>role = System, content = Some (system q)\<rparr>,
                  \<lparr>role = User, content = Some ''Hello, could you introduce yourself?''\<rparr>,
                  \<lparr>role = Assistant, content = Some (clean_markdown raw)\<rparr>]
      \<and> length (history_of (store_after (init_B groq api (Some k) sid st)) sid) = 3)
   \<and> clean_markdown raw = filter (\<lambda>c. c \<noteq> CHR ''*'') raw
   \<and> CHR ''*'' \<notin> set (clean_markdown raw)
   \<and> (clean_markdown raw = []) = (set raw \<subseteq> {CHR ''*''})"
proof -
  have A: "status (sent (init_A groq api (Some k) sid st)) = 200
      \<and> (\<exists>audio. body (sent (init_A groq api (Some k) sid st))
                    = InitBody_A (clean_markdown raw) audio)
      \<and> store_after (init_A groq api (Some k) sid st) sid
          = Some [\<lparr>role = System, content = Some (system p)\<rparr>,
                  \<lparr>role = User, content = Some ''Hello, could you introduce yourself?''\<rparr>,
                  \<lparr>role = Assistant, content = Some (clean_markdown raw)\<rparr>]
      \<and> length (history_of (store_after (init_A groq api (Some k) sid st)) sid) = 3"
    if "presetPrompts_A k = Some p \<and> groq (init_request (Own p)) = Resolved (Some raw)"
  proof -
    from that have l: "lookup_role presetPrompts_A (Some k) = Some (Own p)"
      and g: "groq (init_request (Own p)) = Resolved (Some raw)"
      by (simp_all add: lookup_own_A)
    show ?thesis
      by (simp add: init_A_Resolved[where groq = groq, OF l g] seed_history_def seed_user_def
            config_system_def history_of_def)
  qed
  have B: "sent (init_B groq api (Some k) sid st)
        = \<lparr>status = 200, body = InitBody_B (clean_markdown raw) []\<rparr>
      \<and> store_after (init_B groq api (Some k) sid st) sid
          = Some [\<lparr>role = System, content = Some (system q)\<rparr>,
                  \<lparr>role = User, content = Some ''Hello, could you introduce yourself?''\<rparr>,
                  \<lparr>role = Assistant, content = Some (clean_markdown raw)\<rparr>]
      \<and> length (history_of (store_after (init_B groq api (Some k) sid st)) sid) = 3"
    if "presetPrompts_B k = Some q \<and> groq (init_request (Own q)) = Resolved (Some raw)"
  proof -
    from that have l: "lookup_role presetPrompts_B (Some k) = Some (Own q)"
      and g: "groq (init_request (Own q)) = Resolved (Some raw)"
      by (simp_all add: lookup_own_B)
    show ?thesis
      by (simp add: init_B_Resolved[where groq = groq, OF l g] respond_simps seed_history_def
            seed_user_def config_system_def history_of_def)
  qed
  have C: "(clean_markdown raw = []) = (set raw \<subseteq> {CHR ''*''})"
    by (auto simp: clean_markdown_filter filter_empty_conv)
  from A B C show ?thesis
    by (simp add: clean_markdown_filter)
qed

text \<open>The doctor greets a new session with \<^verbatim>\<open>**Hello**, I am *Dr. Chen*.\<close>\<close>

theorem init_success_witness:
  "store_after (init_A (answering ''**Hello**, I am *Dr. Chen*.'') speech_down (Some ''doctor'')
      (Some ''s1'') Map.empty) (Some ''s1'')
     = Some [\<lparr>role = System, content = Some (system doctor_A)\<rparr>,
             \<lparr>role = User, content = Some ''Hello, could you introduce yourself?''\<rparr>,
             \<lparr>role = Assistant, content = Some ''Hello, I am Dr. Chen.''\<rparr>]
   \<and> sent (init_B (answering ''**Hello**, I am *Dr. Chen*.'') speech_down (Some ''doctor'')
      (Some ''s1'') Map.empty)
     = \<lparr>status = 200, body = InitBody_B ''Hello, I am Dr. Chen.'' []\<rparr>"
  using init_success[where k = "''doctor''" and p = doctor_A and q = doctor_B
      and groq = "answering ''**Hello**, I am *Dr. Chen*.''"
      and raw = "''**Hello**, I am *Dr. Chen*.''" and api = speech_down
      and sid = "Some ''s1''" and st = Map.empty]
  by (simp add: doctor_own example_simps)

text \<open>A completion that consists of emphasis markers only gives an empty greeting, which
  \<^verbatim>\<open>/init\<close> returns with status 200.\<close>

theorem init_greeting_can_be_empty:
  "sent (init_B (answering ''**'') speech_down (Some ''doctor'') (Some ''s1'') Map.empty)
     = \<lparr>status = 200, body = InitBody_B [] []\<rparr>
   \<and> sent (init_A (answering ''**'') speech_down (Some ''doctor'') (Some ''s1'') Map.empty)
     = \<lparr>status = 200, body = InitBody_A [] None\<rparr>"
proof -
  have lA: "lookup_role presetPrompts_A (Some ''doctor'') = Some (Own doctor_A)"
    by (simp add: lookup_own_A doctor_own)
  have lB: "lookup_role presetPrompts_B (Some ''doctor'') = Some (Own doctor_B)"
    by (simp add: lookup_own_B doctor_own)
  have v: "lookup_role roleToVoice (Some ''doctor'') = Some (Own ''EXAVITQu4vr4xnSDxMaL'')"
    by (simp add: lookup_role_def get_property_def roleToVoice_def)
  have c: "clean_markdown ''**'' = []"
    by (simp add: clean_markdown_filter)
  have "sent (init_B (answering ''**'') speech_down (Some ''doctor'') (Some ''s1'') Map.empty)
     = \<lparr>status = 200, body = InitBody_B [] []\<rparr>"
    using init_B_Resolved[where groq = "answering ''**''", OF lB]
    by (simp add: example_simps respond_simps c)
  moreover have "sent (init_A (answering ''**'') speech_down (Some ''doctor'') (Some ''s1'') Map.empty)
     = \<lparr>status = 200, body = InitBody_A [] None\<rparr>"
    using init_A_Resolved(1)[where groq = "answering ''**''", OF lA]
    by (simp add: example_simps c v generateSpeech_A_def speech_body_def)
  ultimately show ?thesis by simp
qed

section \<open>The history after a chat call\<close>

lemma history_of_update:
  "history_of (st(k \<mapsto> h)) sid = (if sid = k then h else history_of st sid)"
  by (simp add: history_of_def)

lemma reply_text_simps:
  "reply_text (ChatBody_A r a) = Some r" "reply_text (ChatBody_C t l) = Some t"
  "reply_text (ErrorBody x) = None" "reply_text (RetryBody x n) = None"
  "reply_text (DetailBody x d) = None"
  by (simp_all add: reply_text_def)

lemma sent_upstream_failure_no_reply:
  "reply_text (body (sent (upstream_failure l g e msg st cs))) = None"
  by (simp add: upstream_failure_simps reply_text_simps)

lemma exchanged_simps:
  "exchanged c (upstream_failure l g e msg st cs) sid = []"
  "exchanged c (missing_message st) sid = []"
  "exchanged c (respond code (ErrorBody x) st cs ss) sid = []"
  "exchanged c (respond code (ChatBody_A r a) st cs ss) sid =
     (if sessionId (call_body c) = sid
      then [\<lparr>role = User, content = message (call_body c)\<rparr>,
            \<lparr>role = Assistant, content = Some r\<rparr>]
      else [])"
  "exchanged c (respond code (ChatBody_C t al) st cs ss) sid =
     (if sessionId (call_body c) = sid
      then [\<lparr>role = User, content = message (call_body c)\<rparr>,
            \<lparr>role = Assistant, content = Some t\<rparr>]
      else [])"
  by (simp_all add: exchanged_def sent_upstream_failure_no_reply missing_message_simps
        respond_simps reply_text_simps)

text \<open>One step of version A: the history of a session after a call is the last six of
  the history before it followed by the turns the call exchanged.\<close>

lemma chat_A_step:
  "history_of (store_after (perform chat_A c st)) sid =
   slice_last 6 (history_of st sid @ exchanged c (perform chat_A c st) sid)
   \<or> (exchanged c (perform chat_A c st) sid = []
      \<and> history_of (store_after (perform chat_A c st)) sid = history_of st sid)"
proof (cases "call_body c" rule: message_cases)
  case 1
  then show ?thesis
    by (simp add: perform_def chat_A_missing missing_message_simps(2) exchanged_simps)
next
  case (2 m)
  obtain rc where rc: "roleConfig_A (selectedRole (call_body c)) = Some rc"
    using roleConfig_A_total by blast
  show ?thesis
  proof (cases "call_groq c (chat_request_A rc (history_of st (sessionId (call_body c))) m)")
    case (Rejected msg)
    show ?thesis
      by (simp add: perform_def chat_A_Rejected[where groq = "call_groq c", OF 2 rc Rejected]
            upstream_failure_simps(1) exchanged_simps)
  next
    case (Resolved r)
    show ?thesis
      by (simp add: perform_def chat_A_Resolved[where groq = "call_groq c", OF 2 rc Resolved]
            respond_simps(2) exchanged_simps history_of_update 2)
  qed
qed

lemma chat_B_step:
  "history_of (store_after (perform chat_B c st)) sid =
   history_of st sid @ exchanged c (perform chat_B c st) sid"
proof (cases "call_body c" rule: message_cases)
  case 1
  then show ?thesis
    by (simp add: perform_def chat_B_missing missing_message_simps(2) exchanged_simps)
next
  case (2 m)
  show ?thesis
  proof (cases "call_groq c (chat_request_B ''mixtral-8x7b-32768''
        (roleConfig_B (selectedRole (call_body c))) (history_of st (sessionId (call_body c))) m
        (model (call_body c)))")
    case (Rejected msg)
    show ?thesis
      by (simp add: perform_def chat_B_Rejected[where groq = "call_groq c", OF 2 Rejected]
            upstream_failure_simps(1) exchanged_simps)
  next
    case (Resolved r)
    show ?thesis
      by (simp add: perform_def chat_B_Resolved[where groq = "call_groq c", OF 2 Resolved]
            respond_simps(2) exchanged_simps history_of_update 2)
  qed
qed

lemma chat_C_step:
  "history_of (store_after (perform chat_C c st)) sid =
   slice_last 10 (history_of st sid @ exchanged c (perform chat_C c st) sid)
   \<or> (exchanged c (perform chat_C c st) sid = []
      \<and> history_of (store_after (perform chat_C c st)) sid = history_of st sid)"
proof (cases "call_body c" rule: message_cases)
  case 1
  then show ?thesis
    by (simp add: perform_def chat_C_missing missing_message_simps(2) exchanged_simps)
next
  case (2 m)
  let ?rq = "chat_request_B ''llama-3.1-70b-versatile''
        (roleConfig_B (selectedRole (call_body c))) (history_of st (sessionId (call_body c))) m
        (model (call_body c))"
  consider msg where "call_groq c ?rq = Rejected msg" | "call_groq c ?rq = Resolved None"
    | raw where "call_groq c ?rq = Resolved (Some raw)"
    by (cases "call_groq c ?rq") auto
  then show ?thesis
  proof cases
    case 1
    then show ?thesis
      by (simp add: perform_def chat_C_failed[where groq = "call_groq c", OF 2]
            respond_simps(2) exchanged_simps)
  next
    case 2
    then show ?thesis
      using \<open>message (call_body c) = Some m\<close> \<open>m \<noteq> []\<close>
      by (simp add: perform_def chat_C_failed[where groq = "call_groq c"]
            respond_simps(2) exchanged_simps)
  next
    case 3
    show ?thesis
      by (simp add: perform_def chat_C_Resolved[where groq = "call_groq c", OF 2 3]
            respond_simps(2) exchanged_simps history_of_update 2)
  qed
qed

text \<open>A step that caps the history at \<open>n\<close>, iterated over a sequence of calls.\<close>

lemma capped_run:
  assumes step: "\<And>c st. history_of (store_after (perform handler c st)) sid =
                   slice_last n (history_of st sid @ exchanged c (perform handler c st) sid)
                 \<or> (exchanged c (perform handler c st) sid = []
                    \<and> history_of (store_after (perform handler c st)) sid = history_of st sid)"
    and start: "length (history_of st sid) \<le> n"
  shows "history_of (run_chats handler cs st) sid =
         slice_last n (history_of st sid @ transcript handler cs st sid)"
  using start
proof (induction cs arbitrary: st)
  case Nil
  then show ?case by (simp add: slice_last_short)
next
  case (Cons c cs)
  let ?st' = "store_after (perform handler c st)"
  let ?x = "exchanged c (perform handler c st) sid"
  have mid: "history_of ?st' sid = slice_last n (history_of st sid @ ?x)"
    using step[of c st] Cons.prems by (auto simp: slice_last_short)
  then have "length (history_of ?st' sid) \<le> n"
    by (simp add: length_slice_last)
  from Cons.IH[OF this]
  have "history_of (run_chats handler (c # cs) st) sid =
        slice_last n (slice_last n (history_of st sid @ ?x) @ transcript handler cs ?st' sid)"
    by (simp add: mid)
  then show ?case
    by (simp add: slice_last_append)
qed

lemma uncapped_run:
  "history_of (run_chats chat_B cs st) sid = history_of st sid @ transcript chat_B cs st sid"
  by (induction cs arbitrary: st) (simp_all add: chat_B_step)

lemma call_of_simps:
  "call_env (call_of m sid raw) = production" "call_groq (call_of m sid raw) = answering raw"
  "call_api (call_of m sid raw) = speech_down" "call_body (call_of m sid raw) = text_body m sid"
  by (simp_all add: call_of_def)

lemma or_text_simps:
  "or_text None d = d" "or_text (Some []) d = d" "s \<noteq> [] \<Longrightarrow> or_text (Some s) d = s"
  by (simp_all add: or_text_def)

lemma perform_A_call_of:
  assumes "m \<noteq> []" "raw \<noteq> []"
  shows "store_after (perform chat_A (call_of m sid raw) st) =
           st(Some sid \<mapsto> slice_last 6 (history_of st (Some sid)
              @ [\<lparr>role = User, content = Some m\<rparr>, \<lparr>role = Assistant, content = Some raw\<rparr>]))"
    and "exchanged (call_of m sid raw) (perform chat_A (call_of m sid raw) st) (Some sid) =
           [\<lparr>role = User, content = Some m\<rparr>, \<lparr>role = Assistant, content = Some raw\<rparr>]"
  using chat_A_Resolved[where groq = "answering raw" and b = "text_body m sid" and m = m
      and c = "Own lawyer_A" and st = st and r = "Some raw" and e = production and api = speech_down]
    assms
  by (simp_all add: perform_def call_of_simps example_simps roleConfig_A_None or_text_simps
        respond_simps(2) exchanged_simps)

lemma perform_B_call_of:
  assumes "m \<noteq> []" "raw \<noteq> []"
  shows "store_after (perform chat_B (call_of m sid raw) st) =
           st(Some sid \<mapsto> history_of st (Some sid)
              @ [\<lparr>role = User, content = Some m\<rparr>, \<lparr>role = Assistant, content = Some raw\<rparr>])"
    and "exchanged (call_of m sid raw) (perform chat_B (call_of m sid raw) st) (Some sid) =
           [\<lparr>role = User, content = Some m\<rparr>, \<lparr>role = Assistant, content = Some raw\<rparr>]"
  using chat_B_Resolved[where groq = "answering raw" and b = "text_body m sid" and m = m
      and st = st and r = "Some raw" and e = production and api = speech_down]
    assms
  by (simp_all add: perform_def call_of_simps example_simps or_text_simps
        respond_simps(2) exchanged_simps)

section \<open>The history cap\<close>

text \<open>
  Claim C1, as the code has it. Take any store, any session and any sequence of
  \<^verbatim>\<open>/chat\<close> calls (for this session or others, answered or failed).
  \<^item> In version A, when the session's history starts with at most 6 entries, after the
    sequence it is the last 6 entries of the starting history followed by the turns
    exchanged on the session, in their order; so it never has more than 6 entries.
  \<^item> In version C the same holds with 10.
  \<^item> Version B has no cap: the history is the starting history followed by every turn
    exchanged on the session.
  A history written by \<^verbatim>\<open>/init\<close> has 3 entries and an unknown session has none, so the
  starting condition holds for them.
\<close>

theorem history_cap:
  "(length (history_of st sid) \<le> 6 \<longrightarrow>
      history_of (run_chats chat_A cs st) sid
        = slice_last 6 (history_of st sid @ transcript chat_A cs st sid)
      \<and> length (history_of (run_chats chat_A cs st) sid) \<le> 6)
   \<and> (length (history_of st sid) \<le> 10 \<longrightarrow>
      history_of (run_chats chat_C cs st) sid
        = slice_last 10 (history_of st sid @ transcript chat_C cs st sid)
      \<and> length (history_of (run_chats chat_C cs st) sid) \<le> 10)
   \<and> history_of (run_chats chat_B cs st) sid
        = history_of st sid @ transcript chat_B cs st sid"
proof (intro conjI impI)
  assume "length (history_of st sid) \<le> 6"
  then show a: "history_of (run_chats chat_A cs st) sid
        = slice_last 6 (history_of st sid @ transcript chat_A cs st sid)"
    by (rule capped_run[where handler = chat_A, OF chat_A_step])
  show "length (history_of (run_chats chat_A cs st) sid) \<le> 6"
    unfolding a by (rule length_slice_last)
next
  assume "length (history_of st sid) \<le> 10"
  then show c: "history_of (run_chats chat_C cs st) sid
        = slice_last 10 (history_of st sid @ transcript chat_C cs st sid)"
    by (rule capped_run[where handler = chat_C, OF chat_C_step])
  show "length (history_of (run_chats chat_C cs st) sid) \<le> 10"
    unfolding c by (rule length_slice_last)
next
  show "history_of (run_chats chat_B cs st) sid
        = history_of st sid @ transcript chat_B cs st sid"
    by (rule uncapped_run)
qed

text \<open>Four answered calls on a new session in version A: eight turns were exchanged, the
  last six are kept, in order.\<close>

theorem history_cap_witness:
  "history_of (run_chats chat_A
       [call_of ''q1'' ''s1'' ''a1'', call_of ''q2'' ''s1'' ''a2'',
        call_of ''q3'' ''s1'' ''a3'', call_of ''q4'' ''s1'' ''a4''] Map.empty) (Some ''s1'')
     = [\<lparr>role = User, content = Some ''q2''\<rparr>, \<lparr>role = Assistant, content = Some ''a2''\<rparr>,
        \<lparr>role = User, content = Some ''q3''\<rparr>, \<lparr>role = Assistant, content = Some ''a3''\<rparr>,
        \<lparr>role = User, content = Some ''q4''\<rparr>, \<lparr>role = Assistant, content = Some ''a4''\<rparr>]
   \<and> length (history_of (run_chats chat_C
       [call_of ''q1'' ''s1'' ''a1'', call_of ''q2'' ''s1'' ''a2''] Map.empty) (Some ''s1'')) \<le> 10"
  using history_cap[where st = Map.empty and sid = "Some ''s1''"
      and cs = "[call_of ''q1'' ''s1'' ''a1'', call_of ''q2'' ''s1'' ''a2'',
                 call_of ''q3'' ''s1'' ''a3'', call_of ''q4'' ''s1'' ''a4'']"]
    history_cap[where st = Map.empty and sid = "Some ''s1''"
      and cs = "[call_of ''q1'' ''s1'' ''a1'', call_of ''q2'' ''s1'' ''a2'']"]
  by (simp add: perform_A_call_of history_of_def slice_last_def)

text \<open>Six answered calls on a new session in version B leave twelve entries in the
  store: more than 6 and more than 10.\<close>

theorem chat_B_history_grows:
  "length (history_of (run_chats chat_B
       [call_of ''q1'' ''s1'' ''a1'', call_of ''q2'' ''s1'' ''a2'', call_of ''q3'' ''s1'' ''a3'',
        call_of ''q4'' ''s1'' ''a4'', call_of ''q5'' ''s1'' ''a5'', call_of ''q6'' ''s1'' ''a6'']
       Map.empty) (Some ''s1'')) = 12"
  by (simp add: uncapped_run perform_B_call_of history_of_def)

section \<open>The reply text of /chat\<close>

lemma inherited_names_no_star:
  "k \<in> set object_prototype_functions \<Longrightarrow> CHR ''*'' \<notin> set (inherited_function_name k)"
  by (auto simp: object_prototype_functions_def inherited_function_name_def)

lemma names_B:
  "name lawyer_B = ''Saul Goodman''" "name doctor_B = ''Dr. Sarah Chen''"
  "name tutor_B = ''Professor Alex Thompson''" "name engineer_B = ''Dr. Michael Zhang''"
  "name financial_B = ''Emma Richardson''" "name writer_B = ''Isabella Martinez''"
  "name tax_B = ''William Turner''" "name saul_fallback = ''SAUL GOODMAN''"
  by (simp_all add: lawyer_B_def doctor_B_def tutor_B_def engineer_B_def
        financial_B_def writer_B_def tax_B_def saul_fallback_def)

lemma persona_B_cases:
  "presetPrompts_B k = Some p \<Longrightarrow>
   p \<in> {lawyer_B, doctor_B, tutor_B, engineer_B, financial_B, writer_B, tax_B}"
  by (simp add: presetPrompts_B_def split: if_splits)

lemma persona_names_B_no_star: "presetPrompts_B k = Some p \<Longrightarrow> CHR ''*'' \<notin> set (name p)"
  using persona_B_cases[of k p] by (auto simp: names_B)

text \<open>No display name that version C can work with contains a star, so cleaning leaves
  the self-introduction as it is.\<close>

lemma config_name_B_no_star: "CHR ''*'' \<notin> set (js_string (config_name (roleConfig_B selected)))"
proof (cases "lookup_role presetPrompts_B selected")
  case None
  then show ?thesis
    by (simp add: roleConfig_B_def config_name_def js_string_def names_B)
next
  case (Some c)
  then obtain k where k: "selected = Some k" "get_property presetPrompts_B k = Some c"
    by (auto simp: lookup_role_def split: option.splits if_splits)
  from k(2) have "CHR ''*'' \<notin> set (js_string (config_name c))"
    using persona_names_B_no_star[of k] inherited_names_no_star[of k]
    by (auto simp: get_property_def config_name_def js_string_def split: option.splits if_splits)
  with Some show ?thesis by (simp add: roleConfig_B_def)
qed

lemma clean_introduce:
  "clean_markdown (introduce first (roleConfig_B selected) raw) =
     (if first \<and> \<not> str_includes raw (js_string (config_name (roleConfig_B selected)))
      then ''Hello! I'm '' @ js_string (config_name (roleConfig_B selected)) @ ''. ''
           @ clean_markdown raw
      else clean_markdown raw)"
proof -
  have "filter (\<lambda>c. c \<noteq> CHR ''*'') (js_string (config_name (roleConfig_B selected)))
        = js_string (config_name (roleConfig_B selected))"
    using config_name_B_no_star[of selected] by (auto simp: filter_id_conv)
  then show ?thesis
    by (simp add: introduce_def clean_markdown_filter)
qed

lemma chat_C_call_resolved:
  assumes "rq \<in> set (completion_calls (chat_C e groq api b st))"
    and "groq rq = Resolved (Some raw)"
  obtains m where "message b = Some m" "m \<noteq> []"
    "groq (chat_request_B ''llama-3.1-70b-versatile'' (roleConfig_B (selectedRole b))
           (history_of st (sessionId b)) m (model b)) = Resolved (Some raw)"
proof (cases b rule: message_cases)
  case 1
  with assms(1) show ?thesis by (simp add: chat_C_missing missing_message_simps)
next
  case (2 m)
  from assms(1) have "rq = chat_request_B ''llama-3.1-70b-versatile''
      (roleConfig_B (selectedRole b)) (history_of st (sessionId b)) m (model b)"
    by (simp add: chat_C_calls[OF 2])
  with assms(2) 2 that show ?thesis by simp
qed

lemma slice_last_last:
  "0 < n \<Longrightarrow> xs \<noteq> [] \<Longrightarrow> slice_last n xs \<noteq> [] \<and> last (slice_last n xs) = last xs"
  by (cases xs rule: rev_cases) (auto simp: slice_last_def)

lemma perform_A_call_of_sent:
  assumes "m \<noteq> []" "raw \<noteq> []"
  shows "sent (perform chat_A (call_of m sid raw) st) = \<lparr>status = 200, body = ChatBody_A raw None\<rparr>"
  using chat_A_Resolved[where groq = "answering raw" and b = "text_body m sid" and m = m
      and c = "Own lawyer_A" and st = st and r = "Some raw" and e = production and api = speech_down]
    assms
  by (simp add: perform_def call_of_simps example_simps roleConfig_A_None or_text_simps
        respond_simps(1))

lemma perform_B_call_of_sent:
  assumes "m \<noteq> []" "raw \<noteq> []"
  shows "sent (perform chat_B (call_of m sid raw) st) = \<lparr>status = 200, body = ChatBody_A raw None\<rparr>"
  using chat_B_Resolved[where groq = "answering raw" and b = "text_body m sid" and m = m
      and st = st and r = "Some raw" and e = production and api = speech_down]
    assms
  by (simp add: perform_def call_of_simps example_simps or_text_simps respond_simps(1))

lemma perform_C_call_of_calls:
  assumes "m \<noteq> []"
  shows "completion_calls (perform chat_C (call_of m sid raw) st) =
         [chat_request_B ''llama-3.1-70b-versatile'' (Own saul_fallback)
            (history_of st (Some sid)) m None]"
  using chat_C_calls[where b = "text_body m sid" and m = m and groq = "answering raw"
      and e = production and api = speech_down and st = st] assms
  by (simp add: perform_def call_of_simps example_simps roleConfig_B_None)

text \<open>
  Claim C5, as the code has it. In version C, when the completion of a \<^verbatim>\<open>/chat\<close> call
  resolves with a content \<open>raw\<close>, the text returned is the (possibly introduced) reply
  with every \<open>*\<close> removed: it contains no \<open>*\<close>, it is \<open>raw\<close> without its stars, with or
  without the self-introduction in front, and the same text is stored as the last entry
  of the session's history, as the assistant turn.
\<close>

theorem chat_C_reply_is_cleaned:
  assumes "rq \<in> set (completion_calls (chat_C e groq api b st))"
    and "groq rq = Resolved (Some raw)"
  shows "status (sent (chat_C e groq api b st)) = 200
     \<and> reply_text (body (sent (chat_C e groq api b st)))
         = Some (clean_markdown
                   (introduce (history_of st (sessionId b) = []) (roleConfig_B (selectedRole b)) raw))
     \<and> CHR ''*'' \<notin> set (clean_markdown
                   (introduce (history_of st (sessionId b) = []) (roleConfig_B (selectedRole b)) raw))
     \<and> (clean_markdown
           (introduce (history_of st (sessionId b) = []) (roleConfig_B (selectedRole b)) raw)
           = filter (\<lambda>c. c \<noteq> CHR ''*'') raw
         \<or> clean_markdown
           (introduce (history_of st (sessionId b) = []) (roleConfig_B (selectedRole b)) raw)
           = ''Hello! I'm '' @ js_string (config_name (roleConfig_B (selectedRole b))) @ ''. ''
             @ filter (\<lambda>c. c \<noteq> CHR ''*'') raw)
     \<and> history_of (store_after (chat_C e groq api b st)) (sessionId b) \<noteq> []
     \<and> last (history_of (store_after (chat_C e groq api b st)) (sessionId b))
         = \<lparr>role = Assistant,
            content = Some (clean_markdown
                   (introduce (history_of st (sessionId b) = []) (roleConfig_B (selectedRole b))
                      raw))\<rparr>"
proof -
  let ?t = "clean_markdown
              (introduce (history_of st (sessionId b) = []) (roleConfig_B (selectedRole b)) raw)"
  from assms obtain m where m: "message b = Some m" "m \<noteq> []"
    and g: "groq (chat_request_B ''llama-3.1-70b-versatile'' (roleConfig_B (selectedRole b))
           (history_of st (sessionId b)) m (model b)) = Resolved (Some raw)"
    by (rule chat_C_call_resolved)
  note run = chat_C_Resolved[where groq = groq, OF m g]
  have 1: "status (sent (chat_C e groq api b st)) = 200"
    and 2: "reply_text (body (sent (chat_C e groq api b st))) = Some ?t"
    by (simp_all add: run respond_simps(1) reply_text_simps)
  have 3: "CHR ''*'' \<notin> set ?t"
    by (rule clean_markdown_no_star)
  have 4: "?t = filter (\<lambda>c. c \<noteq> CHR ''*'') raw
         \<or> ?t = ''Hello! I'm '' @ js_string (config_name (roleConfig_B (selectedRole b))) @ ''. ''
             @ filter (\<lambda>c. c \<noteq> CHR ''*'') raw"
    unfolding clean_introduce by (simp add: clean_markdown_filter)
  have "history_of (store_after (chat_C e groq api b st)) (sessionId b)
        = slice_last 10 (history_of st (sessionId b)
            @ [\<lparr>role = User, content = Some m\<rparr>, \<lparr>role = Assistant, content = Some ?t\<rparr>])"
    by (simp add: run respond_simps(2) history_of_update)
  then have 5: "history_of (store_after (chat_C e groq api b st)) (sessionId b) \<noteq> []
      \<and> last (history_of (store_after (chat_C e groq api b st)) (sessionId b))
          = \<lparr>role = Assistant, content = Some ?t\<rparr>"
    using slice_last_last[of 10 "history_of st (sessionId b)
            @ [\<lparr>role = User, content = Some m\<rparr>, \<lparr>role = Assistant, content = Some ?t\<rparr>]"]
    by simp
  from 1 2 3 4 5 show ?thesis by blast
qed

text \<open>A later turn of a session in version C, answered with emphasis markers.\<close>

theorem chat_C_reply_is_cleaned_witness:
  "reply_text (body (sent (perform chat_C (call_of ''hi'' ''s1'' ''**Sure**, *gladly*.'')
       [Some ''s1'' \<mapsto> [\<lparr>role = User, content = Some ''earlier''\<rparr>]])))
     = Some ''Sure, gladly.''
   \<and> last (history_of (store_after (perform chat_C (call_of ''hi'' ''s1'' ''**Sure**, *gladly*.'')
       [Some ''s1'' \<mapsto> [\<lparr>role = User, content = Some ''earlier''\<rparr>]])) (Some ''s1''))
     = \<lparr>role = Assistant, content = Some ''Sure, gladly.''\<rparr>"
  using chat_C_reply_is_cleaned[where e = production and groq = "answering ''**Sure**, *gladly*.''"
      and api = speech_down and b = "text_body ''hi'' ''s1''"
      and st = "[Some ''s1'' \<mapsto> [\<lparr>role = User, content = Some ''earlier''\<rparr>]]"
      and raw = "''**Sure**, *gladly*.''"
      and rq = "chat_request_B ''llama-3.1-70b-versatile'' (Own saul_fallback)
            [\<lparr>role = User, content = Some ''earlier''\<rparr>] ''hi'' None"]
    perform_C_call_of_calls[where m = "''hi''" and sid = "''s1''" and raw = "''**Sure**, *gladly*.''"
      and st = "[Some ''s1'' \<mapsto> [\<lparr>role = User, content = Some ''earlier''\<rparr>]]"]
  by (simp add: perform_def call_of_simps example_simps history_of_def introduce_def
        clean_markdown_filter)

text \<open>Versions A and B return and store the reply as the completion API gave it, stars
  included.\<close>

theorem chat_A_B_keep_stars:
  "sent (perform chat_A (call_of ''hi'' ''s1'' ''**Sure**'') Map.empty)
     = \<lparr>status = 200, body = ChatBody_A ''**Sure**'' None\<rparr>
   \<and> sent (perform chat_B (call_of ''hi'' ''s1'' ''**Sure**'') Map.empty)
     = \<lparr>status = 200, body = ChatBody_A ''**Sure**'' None\<rparr>
   \<and> history_of (store_after (perform chat_A (call_of ''hi'' ''s1'' ''**Sure**'') Map.empty))
       (Some ''s1'')
     = [\<lparr>role = User, content = Some ''hi''\<rparr>, \<lparr>role = Assistant, content = Some ''**Sure**''\<rparr>]"
  by (simp add: perform_A_call_of_sent perform_B_call_of_sent perform_A_call_of(1)
        history_of_def slice_last_def)

text \<open>
  Claim C6, as the code has it. In version C, when the completion of a \<^verbatim>\<open>/chat\<close> call
  resolves with a content \<open>raw\<close>: if the stored history of the session is empty and
  \<open>raw\<close> does not contain the display name of the role configuration, the text returned
  is \<^verbatim>\<open>Hello! I'm NAME. \<close> followed by the cleaned \<open>raw\<close>; otherwise it is the cleaned
  \<open>raw\<close> with nothing in front.
\<close>

theorem chat_C_first_turn_introduction:
  assumes "rq \<in> set (completion_calls (chat_C e groq api b st))"
    and "groq rq = Resolved (Some raw)"
  shows "reply_text (body (sent (chat_C e groq api b st))) =
           Some (if history_of st (sessionId b) = []
                    \<and> \<not> str_includes raw (js_string (config_name (roleConfig_B (selectedRole b))))
                 then ''Hello! I'm '' @ js_string (config_name (roleConfig_B (selectedRole b)))
                      @ ''. '' @ clean_markdown raw
                 else clean_markdown raw)"
proof -
  from assms obtain m where m: "message b = Some m" "m \<noteq> []"
    and g: "groq (chat_request_B ''llama-3.1-70b-versatile'' (roleConfig_B (selectedRole b))
           (history_of st (sessionId b)) m (model b)) = Resolved (Some raw)"
    by (rule chat_C_call_resolved)
  have "reply_text (body (sent (chat_C e groq api b st)))
        = Some (clean_markdown (introduce (history_of st (sessionId b) = [])
                  (roleConfig_B (selectedRole b)) raw))"
    by (simp add: chat_C_Resolved[where groq = groq, OF m g] respond_simps(1) reply_text_simps)
  then show ?thesis
    by (simp only: clean_introduce)
qed

text \<open>A first turn without the name, a first turn with it, and a later turn.\<close>

theorem chat_C_first_turn_introduction_witness:
  "reply_text (body (sent (perform chat_C (call_of ''hi'' ''s1'' ''How can I help?'') Map.empty)))
     = Some ''Hello! I'm SAUL GOODMAN. How can I help?''
   \<and> reply_text (body (sent (perform chat_C (call_of ''hi'' ''s1'' ''SAUL GOODMAN here.'')
        Map.empty)))
     = Some ''SAUL GOODMAN here.''
   \<and> reply_text (body (sent (perform chat_C (call_of ''hi'' ''s1'' ''How can I help?'')
        [Some ''s1'' \<mapsto> [\<lparr>role = User, content = Some ''earlier''\<rparr>]])))
     = Some ''How can I help?''"
proof -
  have name: "js_string (config_name (roleConfig_B None)) = ''SAUL GOODMAN''"
    by (simp add: roleConfig_B_None config_name_def js_string_def names_B)
  have 1: "reply_text (body (sent (perform chat_C (call_of ''hi'' ''s1'' ''How can I help?'')
             Map.empty))) = Some ''Hello! I'm SAUL GOODMAN. How can I help?''"
    using chat_C_first_turn_introduction[where e = production
        and groq = "answering ''How can I help?''" and api = speech_down
        and b = "text_body ''hi'' ''s1''" and st = Map.empty and raw = "''How can I help?''"
        and rq = "chat_request_B ''llama-3.1-70b-versatile'' (Own saul_fallback) [] ''hi'' None"]
      perform_C_call_of_calls[where m = "''hi''" and sid = "''s1''"
        and raw = "''How can I help?''" and st = Map.empty]
    by (simp add: perform_def call_of_simps example_simps history_of_def name
          clean_markdown_filter)
  have 2: "reply_text (body (sent (perform chat_C (call_of ''hi'' ''s1'' ''SAUL GOODMAN here.'')
             Map.empty))) = Some ''SAUL GOODMAN here.''"
    using chat_C_first_turn_introduction[where e = production
        and groq = "answering ''SAUL GOODMAN here.''" and api = speech_down
        and b = "text_body ''hi'' ''s1''" and st = Map.empty and raw = "''SAUL GOODMAN here.''"
        and rq = "chat_request_B ''llama-3.1-70b-versatile'' (Own saul_fallback) [] ''hi'' None"]
      perform_C_call_of_calls[where m = "''hi''" and sid = "''s1''"
        and raw = "''SAUL GOODMAN here.''" and st = Map.empty]
    by (simp add: perform_def call_of_simps example_simps history_of_def name
          clean_markdown_filter)
  have 3: "reply_text (body (sent (perform chat_C (call_of ''hi'' ''s1'' ''How can I help?'')
        [Some ''s1'' \<mapsto> [\<lparr>role = User, content = Some ''earlier''\<rparr>]])))
     = Some ''How can I help?''"
    using chat_C_first_turn_introduction[where e = production
        and groq = "answering ''How can I help?''" and api = speech_down
        and b = "text_body ''hi'' ''s1''"
        and st = "[Some ''s1'' \<mapsto> [\<lparr>role = User, content = Some ''earlier''\<rparr>]]"
        and raw = "''How can I help?''"
        and rq = "chat_request_B ''llama-3.1-70b-versatile'' (Own saul_fallback)
                    [\<lparr>role = User, content = Some ''earlier''\<rparr>] ''hi'' None"]
      perform_C_call_of_calls[where m = "''hi''" and sid = "''s1''"
        and raw = "''How can I help?''"
        and st = "[Some ''s1'' \<mapsto> [\<lparr>role = User, content = Some ''earlier''\<rparr>]]"]
    by (simp add: perform_def call_of_simps example_simps history_of_def name
          clean_markdown_filter)
  from 1 2 3 show ?thesis by simp
qed

text \<open>Versions A and B have no first-message rule: on a new session, a reply that does
  not name the persona is returned as it is.\<close>

theorem chat_A_B_never_introduce:
  "history_of Map.empty (Some ''s1'') = []
   \<and> roleConfig_A (selectedRole (text_body ''hi'' ''s1'')) = Some (Own lawyer_A)
   \<and> name lawyer_A = ''Saul Goodman''
   \<and> \<not> str_includes ''How can I help?'' ''Saul Goodman''
   \<and> reply_text (body (sent (perform chat_A (call_of ''hi'' ''s1'' ''How can I help?'') Map.empty)))
       = Some ''How can I help?''
   \<and> reply_text (body (sent (perform chat_B (call_of ''hi'' ''s1'' ''How can I help?'') Map.empty)))
       = Some ''How can I help?''"
  by (simp add: perform_A_call_of_sent perform_B_call_of_sent reply_text_simps history_of_def
        example_simps roleConfig_A_None lawyer_A_def)

section \<open>The speech step of version C\<close>

lemma split_join:
  assumes "ws \<noteq> []" and "\<forall>w \<in> set ws. CHR '' '' \<notin> set w"
  shows "split_space (join_space ws) = ws"
  using assms
proof (induction ws rule: join_space.induct)
  case 1
  then show ?case by simp
next
  case (2 w)
  then show ?case by (induction w) auto
next
  case (3 w v ws)
  then have rest: "split_space (join_space (v # ws)) = v # ws" by simp
  from 3(3) have "CHR '' '' \<notin> set w" by simp
  then have "split_space (w @ CHR '' '' # join_space (v # ws)) = w # v # ws"
    by (induction w) (auto simp: rest)
  then show ?case by simp
qed

lemma set_join_space: "set (join_space ws) \<subseteq> insert CHR '' '' (\<Union>w \<in> set ws. set w)"
  by (induction ws rule: join_space.induct) auto

lemma long_reply_words: "split_space long_reply = replicate 120 ''la''"
  unfolding long_reply_def by (rule split_join) auto

lemma long_reply_clean: "clean_markdown long_reply = long_reply"
proof -
  have "CHR ''*'' \<notin> set long_reply"
    using set_join_space[of "replicate 120 ''la''"] by (auto simp: long_reply_def)
  then show ?thesis by (rule clean_markdown_id)
qed

lemma long_reply_nonempty: "long_reply \<noteq> []"
proof
  assume "long_reply = []"
  then have "length (split_space long_reply) = 1" by simp
  then show False by (simp add: long_reply_words)
qed

lemma promise_all_length: "promise_all ps = Some xs \<Longrightarrow> length xs = length ps"
proof (induction ps arbitrary: xs)
  case Nil
  then show ?case by simp
next
  case (Cons p ps)
  then show ?case by (cases p) (auto split: option.splits)
qed

lemma speech_body_Some:
  assumes "vs \<noteq> SettingsNull"
  obtains rq where "speech_body vid txt vs = Some rq" "voice rq = vid" "speech_text rq = txt"
  using assms by (cases vs) (auto simp: speech_body_def)

lemma generateSpeech_B_sends:
  assumes "(if truthy requested then requested else ELEVENLABS_VOICE_ID e) = Some vid" "vid \<noteq> []"
    and "vs \<noteq> SettingsNull"
  shows "\<exists>rq. generateSpeech_B e api txt vs requested = (api rq, [rq])
              \<and> voice rq = vid \<and> speech_text rq = txt"
proof -
  from assms(3) obtain rq where "speech_body vid txt vs = Some rq" "voice rq = vid"
    "speech_text rq = txt" by (rule speech_body_Some)
  with assms(1,2) show ?thesis
    by (auto simp: generateSpeech_B_def Let_def)
qed

text \<open>With a voice identifier and settings that are not \<^verbatim>\<open>null\<close>, the speech step
  sends one request per chunk, in the order of the chunks, and returns either one audio
  entry per request or nothing.\<close>

lemma speak_chunks_sends:
  assumes "(if truthy requested then requested else ELEVENLABS_VOICE_ID e) = Some vid" "vid \<noteq> []"
    and "vs \<noteq> SettingsNull"
  shows "\<exists>rqs. snd (speak_chunks e api t vs requested) = rqs
           \<and> map speech_text rqs = chunk_words (split_space t) [] []
           \<and> map voice rqs = map (\<lambda>chunk. vid) (chunk_words (split_space t) [] [])
           \<and> fst (speak_chunks e api t vs requested)
               = (case promise_all (map api rqs) of None \<Rightarrow> [] | Some buffers \<Rightarrow> map data_url buffers)"
proof -
  define chunks where "chunks = chunk_words (split_space t) [] []"
  have "\<exists>rqs. concat (map (\<lambda>chunk. snd (generateSpeech_B e api chunk vs requested)) cs) = rqs
           \<and> map speech_text rqs = cs
           \<and> map voice rqs = map (\<lambda>chunk. vid) cs
           \<and> map (\<lambda>chunk. fst (generateSpeech_B e api chunk vs requested)) cs = map api rqs" for cs
  proof (induction cs)
    case Nil
    then show ?case by simp
  next
    case (Cons c cs)
    from generateSpeech_B_sends[OF assms, of api c]
    obtain rq where "generateSpeech_B e api c vs requested = (api rq, [rq])"
      "voice rq = vid" "speech_text rq = c" by blast
    with Cons show ?case by auto
  qed
  from this[of chunks] show ?thesis
    by (auto simp: speak_chunks_def Let_def chunks_def comp_def)
qed

lemma chat_C_replied:
  assumes "reply_text (body (sent (chat_C e groq api b st))) = Some t"
  shows "sent (chat_C e groq api b st) =
           \<lparr>status = 200,
            body = ChatBody_C t
              (fst (if ttsEnabled b then speak_chunks e api t (voiceSettings b) (voiceId b)
                    else ([], [])))\<rparr>"
    and "speech_calls (chat_C e groq api b st) =
           snd (if ttsEnabled b then speak_chunks e api t (voiceSettings b) (voiceId b)
                else ([], []))"
proof -
  have "sent (chat_C e groq api b st) =
           \<lparr>status = 200,
            body = ChatBody_C t
              (fst (if ttsEnabled b then speak_chunks e api t (voiceSettings b) (voiceId b)
                    else ([], [])))\<rparr>
      \<and> speech_calls (chat_C e groq api b st) =
           snd (if ttsEnabled b then speak_chunks e api t (voiceSettings b) (voiceId b)
                else ([], []))"
  proof (cases b rule: message_cases)
    case 1
    with assms show ?thesis
      by (simp add: chat_C_missing missing_message_simps reply_text_simps)
  next
    case (2 m)
    let ?rq = "chat_request_B ''llama-3.1-70b-versatile'' (roleConfig_B (selectedRole b))
           (history_of st (sessionId b)) m (model b)"
    consider msg where "groq ?rq = Rejected msg" | "groq ?rq = Resolved None"
      | raw where "groq ?rq = Resolved (Some raw)"
      by (cases "groq ?rq") auto
    then show ?thesis
    proof cases
      case 1
      with assms show ?thesis
        by (simp add: chat_C_failed[where groq = groq, OF 2] respond_simps reply_text_simps)
    next
      case 2
      with assms \<open>message b = Some m\<close> \<open>m \<noteq> []\<close> show ?thesis
        by (simp add: chat_C_failed[where groq = groq] respond_simps reply_text_simps)
    next
      case 3
      note run = chat_C_Resolved[where groq = groq, OF 2 3]
      from assms have "t = clean_markdown
          (introduce (history_of st (sessionId b) = []) (roleConfig_B (selectedRole b)) raw)"
        by (simp add: run respond_simps(1) reply_text_simps)
      then show ?thesis
        by (simp add: run respond_simps)
    qed
  qed
  then show "sent (chat_C e groq api b st) =
           \<lparr>status = 200,
            body = ChatBody_C t
              (fst (if ttsEnabled b then speak_chunks e api t (voiceSettings b) (voiceId b)
                    else ([], [])))\<rparr>"
    and "speech_calls (chat_C e groq api b st) =
           snd (if ttsEnabled b then speak_chunks e api t (voiceSettings b) (voiceId b)
                else ([], []))" by simp_all
qed

lemma long_reply_C:
  assumes "st (Some sid) = Some (x # xs)"
  shows "reply_text (body (sent (chat_C production (answering long_reply) api
           (spoken_body ''hi'' sid vid) st))) = Some long_reply"
  using chat_C_Resolved[where groq = "answering long_reply" and b = "spoken_body ''hi'' sid vid"
      and m = "''hi''" and st = st and raw = long_reply and e = production and api = api] assms
  by (simp add: example_simps respond_simps(1) reply_text_simps introduce_def history_of_def
        long_reply_clean)

text \<open>
  Claim C3, as the code has it. In version C, let a \<^verbatim>\<open>/chat\<close> call with
  \<^verbatim>\<open>ttsEnabled\<close> return a text of exactly 120 space-separated words, let a voice
  identifier be available (the \<^verbatim>\<open>voiceId\<close> of the request or
  \<^verbatim>\<open>ELEVENLABS_VOICE_ID\<close>) and let \<^verbatim>\<open>voiceSettings\<close> not be \<^verbatim>\<open>null\<close>. Then exactly
  three speech requests are sent, for the first 50 words, the next 50 and the last 20, in
  that order and each for that voice. When all three succeed the response carries three
  audio entries, in the order of the chunks; when one fails it carries none.
\<close>

theorem chat_C_speech_of_120_words:
  assumes tts: "ttsEnabled b"
    and reply: "reply_text (body (sent (chat_C e groq api b st))) = Some t"
    and words: "length (split_space t) = 120"
    and voice: "(if truthy (voiceId b) then voiceId b else ELEVENLABS_VOICE_ID e) = Some vid"
      "vid \<noteq> []"
    and settings: "voiceSettings b \<noteq> SettingsNull"
  shows "map speech_text (speech_calls (chat_C e groq api b st))
           = [join_space (take 50 (split_space t)),
              join_space (take 50 (drop 50 (split_space t))),
              join_space (drop 100 (split_space t))]
     \<and> length (take 50 (split_space t)) = 50
     \<and> length (take 50 (drop 50 (split_space t))) = 50
     \<and> length (drop 100 (split_space t)) = 20
     \<and> map voice (speech_calls (chat_C e groq api b st)) = [vid, vid, vid]
     \<and> body (sent (chat_C e groq api b st))
         = ChatBody_C t
             (case promise_all (map api (speech_calls (chat_C e groq api b st))) of
                None \<Rightarrow> []
              | Some buffers \<Rightarrow> map data_url buffers)
     \<and> (case promise_all (map api (speech_calls (chat_C e groq api b st))) of
           None \<Rightarrow> True
         | Some buffers \<Rightarrow> length buffers = 3)"
proof -
  let ?calls = "speech_calls (chat_C e groq api b st)"
  have chunks: "chunk_words (split_space t) [] []
      = [join_space (take 50 (split_space t)),
         join_space (take 50 (drop 50 (split_space t))),
         join_space (drop 100 (split_space t))]"
    using words by (rule chunk_words_120)
  from speak_chunks_sends[OF voice settings, of api t]
  have sends: "map speech_text (snd (speak_chunks e api t (voiceSettings b) (voiceId b)))
                 = chunk_words (split_space t) [] []"
      "map voice (snd (speak_chunks e api t (voiceSettings b) (voiceId b)))
                 = map (\<lambda>chunk. vid) (chunk_words (split_space t) [] [])"
      "fst (speak_chunks e api t (voiceSettings b) (voiceId b))
         = (case promise_all (map api (snd (speak_chunks e api t (voiceSettings b) (voiceId b)))) of
              None \<Rightarrow> [] | Some buffers \<Rightarrow> map data_url buffers)"
    by auto
  have calls: "?calls = snd (speak_chunks e api t (voiceSettings b) (voiceId b))"
    using chat_C_replied(2)[OF reply] tts by simp
  have 1: "map speech_text ?calls
           = [join_space (take 50 (split_space t)),
              join_space (take 50 (drop 50 (split_space t))),
              join_space (drop 100 (split_space t))]"
    by (simp only: calls sends(1) chunks)
  have 2: "map voice ?calls = [vid, vid, vid]"
    by (simp add: calls sends(2) chunks)
  have 3: "body (sent (chat_C e groq api b st))
         = ChatBody_C t (case promise_all (map api ?calls) of
                None \<Rightarrow> [] | Some buffers \<Rightarrow> map data_url buffers)"
    using chat_C_replied(1)[OF reply] tts sends(3) by (simp add: calls)
  from 2 have three: "length ?calls = 3"
    by (metis length_map length_Cons list.size(3) numeral_3_eq_3)
  have 4: "(case promise_all (map api ?calls) of None \<Rightarrow> True
            | Some buffers \<Rightarrow> length buffers = 3)"
    using promise_all_length[of "map api ?calls"] three by (auto split: option.splits)
  have 5: "length (take 50 (split_space t)) = 50"
    "length (take 50 (drop 50 (split_space t))) = 50" "length (drop 100 (split_space t)) = 20"
    using words by simp_all
  from 1 2 3 4 5 show ?thesis by blast
qed

text \<open>The 120-word reply on a session with history, with a voice and a speech API that
  answers every request.\<close>

theorem chat_C_speech_of_120_words_witness:
  "map speech_text (speech_calls (chat_C production (answering long_reply) speech_up
       (spoken_body ''hi'' ''s1'' ''voice1'')
       [Some ''s1'' \<mapsto> [\<lparr>role = User, content = Some ''earlier''\<rparr>]]))
     = [join_space (replicate 50 ''la''), join_space (replicate 50 ''la''),
        join_space (replicate 20 ''la'')]
   \<and> body (sent (chat_C production (answering long_reply) speech_up
       (spoken_body ''hi'' ''s1'' ''voice1'')
       [Some ''s1'' \<mapsto> [\<lparr>role = User, content = Some ''earlier''\<rparr>]]))
     = ChatBody_C long_reply [data_url ''QUJD'', data_url ''QUJD'', data_url ''QUJD'']"
proof -
  let ?st = "[Some ''s1'' \<mapsto> [\<lparr>role = User, content = Some ''earlier''\<rparr>]]"
  let ?out = "chat_C production (answering long_reply) speech_up
       (spoken_body ''hi'' ''s1'' ''voice1'') ?st"
  have reply: "reply_text (body (sent ?out)) = Some long_reply"
    by (rule long_reply_C) simp
  note inst = chat_C_speech_of_120_words[where b = "spoken_body ''hi'' ''s1'' ''voice1''"
      and e = production and groq = "answering long_reply" and api = speech_up and st = ?st
      and t = long_reply and vid = "''voice1''", OF _ reply]
  have all: "map speech_text (speech_calls ?out)
           = [join_space (replicate 50 ''la''), join_space (replicate 50 ''la''),
              join_space (replicate 20 ''la'')]
     \<and> body (sent ?out)
         = ChatBody_C long_reply
             (case promise_all (map speech_up (speech_calls ?out)) of
                None \<Rightarrow> []
              | Some buffers \<Rightarrow> map data_url buffers)
     \<and> map voice (speech_calls ?out) = [''voice1'', ''voice1'', ''voice1'']"
    using inst by (simp add: example_simps truthy_def long_reply_words)
  then obtain r1 r2 r3 where calls: "speech_calls ?out = [r1, r2, r3]"
    by (auto simp: map_eq_Cons_conv)
  show ?thesis using all by (simp add: calls example_simps)
qed

lemma generateSpeech_B_no_voice:
  "\<not> truthy requested \<Longrightarrow> \<not> truthy (ELEVENLABS_VOICE_ID e) \<Longrightarrow>
   generateSpeech_B e api txt vs requested = (None, [])"
  by (auto simp: generateSpeech_B_def truthy_def Let_def split: option.splits)

lemma generateSpeech_B_null: "generateSpeech_B e api txt SettingsNull requested = (None, [])"
  by (auto simp: generateSpeech_B_def Let_def speech_body_def split: option.splits)

lemma speak_chunks_nothing:
  assumes "\<And>chunk. generateSpeech_B e api chunk vs requested = (None, [])"
  shows "speak_chunks e api t vs requested = ([], [])"
proof (cases "chunk_words (split_space t) [] []")
  case Nil
  then show ?thesis by (simp add: speak_chunks_def)
next
  case (Cons c cs)
  then show ?thesis by (simp add: speak_chunks_def assms)
qed

lemma long_reply_C_any:
  assumes "message b = Some m" "m \<noteq> []" "history_of st (sessionId b) \<noteq> []"
  shows "reply_text (body (sent (chat_C e (answering long_reply) api b st))) = Some long_reply"
  using chat_C_Resolved[where groq = "answering long_reply" and b = b
      and m = m and st = st and raw = long_reply and e = e and api = api] assms
  by (simp add: example_simps respond_simps(1) reply_text_simps introduce_def long_reply_clean)

lemma speechless_bodies:
  "message (voiceless_body m sid) = Some m" "sessionId (voiceless_body m sid) = Some sid"
  "voiceSettings (voiceless_body m sid) = SettingsAbsent" "voiceId (voiceless_body m sid) = None"
  "ttsEnabled (voiceless_body m sid) = True"
  "message (null_settings_body m sid vid) = Some m"
  "sessionId (null_settings_body m sid vid) = Some sid"
  "voiceSettings (null_settings_body m sid vid) = SettingsNull"
  "voiceId (null_settings_body m sid vid) = Some vid"
  "ttsEnabled (null_settings_body m sid vid) = True"
  by (simp_all add: voiceless_body_def null_settings_body_def)

text \<open>
  The same call while the speech API is down: three requests are sent and the response
  carries no audio. The same call without any voice identifier, or with
  \<^verbatim>\<open>voiceSettings: null\<close>: no request is sent. And the same call in version A: one
  request, for the whole reply.
\<close>

theorem speech_of_120_words_can_differ:
  "length (split_space long_reply) = 120
   \<and> reply_text (body (sent (chat_C production (answering long_reply) speech_down
       (spoken_body ''hi'' ''s1'' ''voice1'')
       [Some ''s1'' \<mapsto> [\<lparr>role = User, content = Some ''earlier''\<rparr>]]))) = Some long_reply
   \<and> length (speech_calls (chat_C production (answering long_reply) speech_down
       (spoken_body ''hi'' ''s1'' ''voice1'')
       [Some ''s1'' \<mapsto> [\<lparr>role = User, content = Some ''earlier''\<rparr>]])) = 3
   \<and> body (sent (chat_C production (answering long_reply) speech_down
       (spoken_body ''hi'' ''s1'' ''voice1'')
       [Some ''s1'' \<mapsto> [\<lparr>role = User, content = Some ''earlier''\<rparr>]]))
     = ChatBody_C long_reply []
   \<and> speech_calls (chat_C production (answering long_reply) speech_up
       (voiceless_body ''hi'' ''s1'')
       [Some ''s1'' \<mapsto> [\<lparr>role = User, content = Some ''earlier''\<rparr>]]) = []
   \<and> body (sent (chat_C production (answering long_reply) speech_up
       (voiceless_body ''hi'' ''s1'')
       [Some ''s1'' \<mapsto> [\<lparr>role = User, content = Some ''earlier''\<rparr>]]))
     = ChatBody_C long_reply []
   \<and> speech_calls (chat_C production (answering long_reply) speech_up
       (null_settings_body ''hi'' ''s1'' ''voice1'')
       [Some ''s1'' \<mapsto> [\<lparr>role = User, content = Some ''earlier''\<rparr>]]) = []
   \<and> body (sent (chat_C production (answering long_reply) speech_up
       (null_settings_body ''hi'' ''s1'' ''voice1'')
       [Some ''s1'' \<mapsto> [\<lparr>role = User, content = Some ''earlier''\<rparr>]]))
     = ChatBody_C long_reply []
   \<and> sent (chat_A production (answering long_reply) speech_up
       (spoken_body ''hi'' ''s1'' ''voice1'')
       [Some ''s1'' \<mapsto> [\<lparr>role = User, content = Some ''earlier''\<rparr>]])
     = \<lparr>status = 200, body = ChatBody_A long_reply (Some (data_url ''QUJD''))\<rparr>
   \<and> map speech_text (speech_calls (chat_A production (answering long_reply) speech_up
       (spoken_body ''hi'' ''s1'' ''voice1'')
       [Some ''s1'' \<mapsto> [\<lparr>role = User, content = Some ''earlier''\<rparr>]])) = [long_reply]"
proof -
  let ?st = "[Some ''s1'' \<mapsto> [\<lparr>role = User, content = Some ''earlier''\<rparr>]]"
  let ?b = "spoken_body ''hi'' ''s1'' ''voice1''"
  let ?out = "chat_C production (answering long_reply) speech_down ?b ?st"
  have words: "length (split_space long_reply) = 120"
    by (simp add: long_reply_words)
  have reply: "reply_text (body (sent ?out)) = Some long_reply"
    by (rule long_reply_C) simp
  have voice: "(if truthy (voiceId ?b) then voiceId ?b else ELEVENLABS_VOICE_ID production)
                 = Some ''voice1''"
    by (simp add: example_simps truthy_def)
  from speak_chunks_sends[OF voice, of "voiceSettings ?b" speech_down long_reply]
  obtain rqs where rqs: "snd (speak_chunks production speech_down long_reply (voiceSettings ?b)
        (voiceId ?b)) = rqs"
      "map speech_text rqs = chunk_words (split_space long_reply) [] []"
      "fst (speak_chunks production speech_down long_reply (voiceSettings ?b) (voiceId ?b))
         = (case promise_all (map speech_down rqs) of None \<Rightarrow> []
            | Some buffers \<Rightarrow> map data_url buffers)"
    by (auto simp: example_simps)
  from rqs(2) have len: "length rqs = 3"
    using chunk_words_120[OF words] by (metis length_map length_Cons list.size(3) numeral_3_eq_3)
  then obtain r1 r2 r3 where "rqs = [r1, r2, r3]"
    by (auto simp: length_Suc_conv numeral_3_eq_3)
  then have none: "promise_all (map speech_down rqs) = None"
    by (simp add: example_simps)
  have calls: "speech_calls ?out = rqs"
    using chat_C_replied(2)[OF reply] rqs(1) by (simp add: example_simps)
  have body: "body (sent ?out) = ChatBody_C long_reply []"
    using chat_C_replied(1)[OF reply] rqs(3) none by (simp add: example_simps)
  let ?v = "chat_C production (answering long_reply) speech_up (voiceless_body ''hi'' ''s1'') ?st"
  have "reply_text (body (sent ?v)) = Some long_reply"
    by (rule long_reply_C_any[where m = "''hi''"]) (simp_all add: speechless_bodies history_of_def)
  from chat_C_replied[OF this]
  have v: "speech_calls ?v = []" "body (sent ?v) = ChatBody_C long_reply []"
    by (simp_all add: speechless_bodies example_simps truthy_def
          speak_chunks_nothing[OF generateSpeech_B_no_voice])
  let ?n = "chat_C production (answering long_reply) speech_up
              (null_settings_body ''hi'' ''s1'' ''voice1'') ?st"
  have "reply_text (body (sent ?n)) = Some long_reply"
    by (rule long_reply_C_any[where m = "''hi''"]) (simp_all add: speechless_bodies history_of_def)
  from chat_C_replied[OF this]
  have n: "speech_calls ?n = []" "body (sent ?n) = ChatBody_C long_reply []"
    by (simp_all add: speechless_bodies speak_chunks_nothing[OF generateSpeech_B_null])
  have A: "chat_A production (answering long_reply) speech_up ?b ?st =
      respond 200 (ChatBody_A long_reply (Some (data_url ''QUJD'')))
        (?st(Some ''s1'' \<mapsto> slice_last 6 (history_of ?st (Some ''s1'')
            @ [\<lparr>role = User, content = Some ''hi''\<rparr>,
               \<lparr>role = Assistant, content = Some long_reply\<rparr>])))
        [chat_request_A (Own lawyer_A) (history_of ?st (Some ''s1'')) ''hi'']
        [\<lparr>voice = ''voice1'', speech_text = long_reply, stability = 1 / 2,
          similarity_boost = 1 / 2\<rparr>]"
    using chat_A_Resolved[where groq = "answering long_reply" and b = ?b and m = "''hi''"
        and c = "Own lawyer_A" and st = ?st and r = "Some long_reply" and e = production
        and api = speech_up] long_reply_nonempty
    by (simp add: example_simps roleConfig_A_None or_text_simps truthy_def js_string_def
          generateSpeech_A_def speech_body_def)
  show ?thesis
    using words reply len calls body v n by (simp add: A respond_simps)
qed

section \<open>The fallback persona\<close>

lemma role_body_simps:
  "message (role_body m sid key) = Some m" "sessionId (role_body m sid key) = Some sid"
  "voiceSettings (role_body m sid key) = SettingsAbsent" "model (role_body m sid key) = None"
  "voiceId (role_body m sid key) = None" "selectedRole (role_body m sid key) = Some key"
  "ttsEnabled (role_body m sid key) = False"
  by (simp_all add: role_body_def)

text \<open>The fallback of versions B and C carries the system prompt of the lawyer entry and
  the display name in capitals.\<close>

lemma saul_fallback_system: "system saul_fallback = system lawyer_B"
  by (simp add: saul_fallback_def lawyer_B_def)

text \<open>A selected role that is absent, empty, or names no property of the persona table,
  own or inherited, is replaced by the lawyer persona (A) or the fallback literal (B, C).\<close>

lemma fallback_when_no_property:
  assumes "selected = None \<or> selected = Some []
           \<or> (\<exists>k. selected = Some k \<and> get_property presetPrompts_A k = None)"
  shows "roleConfig_A selected = Some (Own lawyer_A)"
  using assms by (auto simp: roleConfig_A_def lookup_role_def lawyer_A_own)

lemma fallback_when_no_property_B:
  assumes "selected = None \<or> selected = Some []
           \<or> (\<exists>k. selected = Some k \<and> get_property presetPrompts_B k = None)"
  shows "roleConfig_B selected = Own saul_fallback"
  using assms by (auto simp: roleConfig_B_def lookup_role_def)

lemma constructor_lookup:
  "presetPrompts_A ''constructor'' = None" "presetPrompts_B ''constructor'' = None"
  "roleConfig_A (Some ''constructor'') = Some (InheritedFunction ''Object'')"
  "roleConfig_B (Some ''constructor'') = InheritedFunction ''Object''"
  by (simp_all add: roleConfig_A_def roleConfig_B_def lookup_role_def get_property_def
        presetPrompts_A_def presetPrompts_B_def object_prototype_functions_def
        inherited_function_name_def)

text \<open>
  Claim C7 on the input \<^verbatim>\<open>{ message: "hi", sessionId: "s1", selectedRole:
  "constructor" }\<close>. The key is not one of the persona table, yet
  \<^verbatim>\<open>presetPrompts["constructor"]\<close> is the inherited function \<^verbatim>\<open>Object\<close>, which is
  truthy, so the handlers take it as the role configuration instead of falling back: version
  A sends the system prompt \<^verbatim>\<open>undefined Always be concise and direct.\<close>, versions B and C
  send a system message without content, and version C introduces itself as
  \<^verbatim>\<open>Object\<close>. Without a selected role the lawyer's system prompt is sent.
\<close>

theorem constructor_role_is_not_replaced:
  "presetPrompts_A ''constructor'' = None
   \<and> presetPrompts_B ''constructor'' = None
   \<and> map content (concat (map messages (completion_calls
         (chat_A production (answering ''How can I help?'') speech_down
            (role_body ''hi'' ''s1'' ''constructor'') Map.empty))))
       = [Some ''undefined Always be concise and direct.'', Some ''hi'']
   \<and> map content (concat (map messages (completion_calls
         (chat_A production (answering ''How can I help?'') speech_down
            (text_body ''hi'' ''s1'') Map.empty))))
       = [Some (system lawyer_A @ '' Always be concise and direct.''), Some ''hi'']
   \<and> map content (concat (map messages (completion_calls
         (chat_B production (answering ''How can I help?'') speech_down
            (role_body ''hi'' ''s1'' ''constructor'') Map.empty))))
       = [None, Some ''hi'']
   \<and> map content (concat (map messages (completion_calls
         (chat_C production (answering ''How can I help?'') speech_down
            (role_body ''hi'' ''s1'' ''constructor'') Map.empty))))
       = [None, Some ''hi'']
   \<and> map content (concat (map messages (completion_calls
         (chat_C production (answering ''How can I help?'') speech_down
            (text_body ''hi'' ''s1'') Map.empty))))
       = [Some (system lawyer_B), Some ''hi'']
   \<and> reply_text (body (sent (chat_C production (answering ''How can I help?'') speech_down
            (role_body ''hi'' ''s1'' ''constructor'') Map.empty)))
       = Some ''Hello! I'm Object. How can I help?''"
proof -
  have h: "history_of Map.empty (Some ''s1'') = []" by (simp add: history_of_def)
  have a1: "completion_calls (chat_A production (answering ''How can I help?'') speech_down
            (role_body ''hi'' ''s1'' ''constructor'') Map.empty)
        = [chat_request_A (InheritedFunction ''Object'') [] ''hi'']"
    using chat_A_calls[where b = "role_body ''hi'' ''s1'' ''constructor''" and m = "''hi''"
        and c = "InheritedFunction ''Object''" and st = Map.empty]
    by (simp add: role_body_simps constructor_lookup h)
  have a2: "completion_calls (chat_A production (answering ''How can I help?'') speech_down
            (text_body ''hi'' ''s1'') Map.empty)
        = [chat_request_A (Own lawyer_A) [] ''hi'']"
    using chat_A_calls[where b = "text_body ''hi'' ''s1''" and m = "''hi''"
        and c = "Own lawyer_A" and st = Map.empty]
    by (simp add: example_simps roleConfig_A_None h)
  have b1: "completion_calls (chat_B production (answering ''How can I help?'') speech_down
            (role_body ''hi'' ''s1'' ''constructor'') Map.empty)
        = [chat_request_B ''mixtral-8x7b-32768'' (InheritedFunction ''Object'') [] ''hi'' None]"
    using chat_B_calls[where b = "role_body ''hi'' ''s1'' ''constructor''" and m = "''hi''"
        and st = Map.empty]
    by (simp add: role_body_simps constructor_lookup h)
  have c1: "completion_calls (chat_C production (answering ''How can I help?'') speech_down
            (role_body ''hi'' ''s1'' ''constructor'') Map.empty)
        = [chat_request_B ''llama-3.1-70b-versatile'' (InheritedFunction ''Object'') [] ''hi'' None]"
    using chat_C_calls[where b = "role_body ''hi'' ''s1'' ''constructor''" and m = "''hi''"
        and st = Map.empty]
    by (simp add: role_body_simps constructor_lookup h)
  have c2: "completion_calls (chat_C production (answering ''How can I help?'') speech_down
            (text_body ''hi'' ''s1'') Map.empty)
        = [chat_request_B ''llama-3.1-70b-versatile'' (Own saul_fallback) [] ''hi'' None]"
    using chat_C_calls[where b = "text_body ''hi'' ''s1''" and m = "''hi''" and st = Map.empty]
    by (simp add: example_simps roleConfig_B_None h)
  have c3: "reply_text (body (sent (chat_C production (answering ''How can I help?'') speech_down
            (role_body ''hi'' ''s1'' ''constructor'') Map.empty)))
       = Some ''Hello! I'm Object. How can I help?''"
    using chat_C_Resolved[where groq = "answering ''How can I help?''"
        and b = "role_body ''hi'' ''s1'' ''constructor''" and m = "''hi''" and st = Map.empty
        and raw = "''How can I help?''" and e = production and api = speech_down]
    by (simp add: role_body_simps example_simps constructor_lookup h respond_simps(1)
          reply_text_simps introduce_def config_name_def js_string_def clean_markdown_filter)
  show ?thesis
    by (simp add: constructor_lookup(1,2) a1 a2 b1 c1 c2 c3 chat_request_A_def chat_request_B_def
          config_system_def js_string_def slice_last_def saul_fallback_system)
qed

section \<open>What versions A and B do with the reply\<close>

text \<open>Versions A and B return the content of the completion as it is (or their fixed
  text when it is missing or empty), on every turn, and send at most one speech request
  per call.\<close>

lemma chat_A_reply_unchanged:
  assumes "rq \<in> set (completion_calls (chat_A e groq api b st))" and "groq rq = Resolved c"
  shows "reply_text (body (sent (chat_A e groq api b st)))
           = Some (or_text c ''Sorry, I couldn't generate a response.'')"
proof (cases b rule: message_cases)
  case 1
  with assms(1) show ?thesis by (simp add: chat_A_missing missing_message_simps)
next
  case (2 m)
  obtain rc where rc: "roleConfig_A (selectedRole b) = Some rc"
    using roleConfig_A_total by blast
  from assms(1) have "rq = chat_request_A rc (history_of st (sessionId b)) m"
    by (simp add: chat_A_calls[OF 2 rc])
  with assms(2) have "groq (chat_request_A rc (history_of st (sessionId b)) m) = Resolved c"
    by simp
  from chat_A_Resolved[where groq = groq, OF 2 rc this] show ?thesis
    by (simp add: respond_simps(1) reply_text_simps)
qed

lemma chat_B_reply_unchanged:
  assumes "rq \<in> set (completion_calls (chat_B e groq api b st))" and "groq rq = Resolved c"
  shows "reply_text (body (sent (chat_B e groq api b st)))
           = Some (or_text c ''I apologize, but I couldn't generate a response at the moment.'')"
proof (cases b rule: message_cases)
  case 1
  with assms(1) show ?thesis by (simp add: chat_B_missing missing_message_simps)
next
  case (2 m)
  from assms(1) have "rq = chat_request_B ''mixtral-8x7b-32768'' (roleConfig_B (selectedRole b))
      (history_of st (sessionId b)) m (model b)"
    by (simp add: chat_B_calls[OF 2])
  with assms(2) have "groq (chat_request_B ''mixtral-8x7b-32768'' (roleConfig_B (selectedRole b))
      (history_of st (sessionId b)) m (model b)) = Resolved c"
    by simp
  from chat_B_Resolved[where groq = groq, OF 2 this] show ?thesis
    by (simp add: respond_simps(1) reply_text_simps)
qed

lemma generateSpeech_A_one: "length (snd (generateSpeech_A api txt vs vid)) \<le> Suc 0"
  by (simp add: generateSpeech_A_def split: option.splits)

lemma generateSpeech_B_one: "length (snd (generateSpeech_B e api txt vs requested)) \<le> Suc 0"
  by (simp add: generateSpeech_B_def Let_def split: option.splits)

lemma chat_A_one_speech_request: "length (speech_calls (chat_A e groq api b st)) \<le> 1"
proof (cases b rule: message_cases)
  case 1
  then show ?thesis by (simp add: chat_A_missing missing_message_simps)
next
  case (2 m)
  obtain rc where rc: "roleConfig_A (selectedRole b) = Some rc"
    using roleConfig_A_total by blast
  show ?thesis
  proof (cases "groq (chat_request_A rc (history_of st (sessionId b)) m)")
    case (Rejected msg)
    show ?thesis
      by (simp add: chat_A_Rejected[where groq = groq, OF 2 rc Rejected] upstream_failure_simps)
  next
    case (Resolved r)
    show ?thesis
      by (simp add: chat_A_Resolved[where groq = groq, OF 2 rc Resolved] respond_simps(4)
            generateSpeech_A_one)
  qed
qed

lemma chat_B_one_speech_request: "length (speech_calls (chat_B e groq api b st)) \<le> 1"
proof (cases b rule: message_cases)
  case 1
  then show ?thesis by (simp add: chat_B_missing missing_message_simps)
next
  case (2 m)
  show ?thesis
  proof (cases "groq (chat_request_B ''mixtral-8x7b-32768'' (roleConfig_B (selectedRole b))
      (history_of st (sessionId b)) m (model b))")
    case (Rejected msg)
    show ?thesis
      by (simp add: chat_B_Rejected[where groq = groq, OF 2 Rejected] upstream_failure_simps)
  next
    case (Resolved r)
    show ?thesis
      by (simp add: chat_B_Resolved[where groq = groq, OF 2 Resolved] respond_simps(4)
            generateSpeech_B_one)
  qed
qed

end
